theory Spec2Isabelle
  imports Complex_Main
begin

section \<open>Lunatic Python: Lua embedded in Python (luainpython.c)\<close>

text \<open>
  The development embeds the C functions of \<^verbatim>\<open>luainpython.c\<close> as HOL functions over an
  explicit state. One record holds what the C code reads and writes: the Lua value stack,
  the integer-keyed slots of the Lua registry, the contents of the Lua tables, the table of
  globals, the installed panic handler, whether a protected call is running, Python's error
  indicator, and the outcomes of the next Python allocation requests.

  Lua numbers and Python floats are C doubles; they are modelled as rationals (every finite
  double is one), so rounding, infinities and NaN are outside the model. A Python int is a C
  long of 64 bits.
\<close>

subsection \<open>Python objects\<close>

text \<open>The struct \<^verbatim>\<open>LuaObject\<close> of luainpython.h, without the pointer to its state object.\<close>

record LuaObject =
  ref :: int
  refiter :: int

datatype py_exc = PyExc_RuntimeError | PyExc_TypeError | PyExc_ValueError | PyExc_Exception

datatype py_obj =
    Py_None
  | Py_True
  | Py_False
  | PyInt int
  | PyFloat rat
  | PyString string
  | PyLuaObject LuaObject
  | PyTuple "py_obj list"
  | PyOther nat

subsection \<open>Lua values\<close>

text \<open>
  Tables, functions, threads and userdata are references (an address). A full userdata
  carries its size; \<open>LPyObject\<close> is the userdata that the other half of the bridge
  (pythoninlua.c) creates around a Python object.
\<close>

datatype lua_value =
    LNil
  | LBoolean bool
  | LNumber rat
  | LString string
  | LTable nat
  | LFunction nat
  | LUserdata nat nat
  | LPyObject py_obj
  | LLightUserdata nat
  | LThread nat

datatype lua_tag =
    LUA_TNONE | LUA_TNIL | LUA_TBOOLEAN | LUA_TLIGHTUSERDATA | LUA_TNUMBER
  | LUA_TSTRING | LUA_TTABLE | LUA_TFUNCTION | LUA_TUSERDATA | LUA_TTHREAD

fun tag_of :: "lua_value \<Rightarrow> lua_tag" where
  "tag_of LNil = LUA_TNIL"
| "tag_of (LBoolean b) = LUA_TBOOLEAN"
| "tag_of (LNumber x) = LUA_TNUMBER"
| "tag_of (LString s) = LUA_TSTRING"
| "tag_of (LTable a) = LUA_TTABLE"
| "tag_of (LFunction f) = LUA_TFUNCTION"
| "tag_of (LUserdata a n) = LUA_TUSERDATA"
| "tag_of (LPyObject p) = LUA_TUSERDATA"
| "tag_of (LLightUserdata a) = LUA_TLIGHTUSERDATA"
| "tag_of (LThread a) = LUA_TTHREAD"

fun lua_typename :: "lua_tag \<Rightarrow> string" where
  "lua_typename LUA_TNONE = ''no value''"
| "lua_typename LUA_TNIL = ''nil''"
| "lua_typename LUA_TBOOLEAN = ''boolean''"
| "lua_typename LUA_TLIGHTUSERDATA = ''userdata''"
| "lua_typename LUA_TNUMBER = ''number''"
| "lua_typename LUA_TSTRING = ''string''"
| "lua_typename LUA_TTABLE = ''table''"
| "lua_typename LUA_TFUNCTION = ''function''"
| "lua_typename LUA_TUSERDATA = ''userdata''"
| "lua_typename LUA_TTHREAD = ''thread''"

text \<open>The panic handlers a Lua state can hold: the two of this file, another one, or none.\<close>

datatype lua_CFunction =
    Fn_py_lua_panic
  | Fn_py_lua_module_panic
  | Fn_other nat
  | Fn_NULL

subsection \<open>The state\<close>

type_synonym lua_table = "(lua_value \<times> lua_value) list"

record world =
  stack :: "lua_value list"
  registry :: "(int \<times> lua_value) list"
  tables :: "nat \<Rightarrow> lua_table"
  globals :: nat
  panic :: lua_CFunction
  errorJmp :: bool
  PyErr :: "(py_exc \<times> string) option"
  allocs :: "bool list"

text \<open>
  \<open>stack\<close> lists the Lua stack from the bottom (index 1) to the top (index -1).
  \<open>tables a\<close> lists the entries of the table at address \<open>a\<close> in traversal order, and
  \<open>globals\<close> is the address of the table at \<^verbatim>\<open>LUA_GLOBALSINDEX\<close>.
  \<open>errorJmp\<close> says that a protected call of the Lua state is running (Lua's
  \<^verbatim>\<open>L->errorJmp\<close> is not NULL): the functions of this file are then entered from Python
  code that Lua code has called, through the other half of the bridge, under \<^verbatim>\<open>lua_pcall\<close>.
  \<open>allocs\<close> holds the outcomes of the coming Python allocation requests, \<open>False\<close> for a
  request that returns NULL; when the list is used up every request succeeds.
\<close>

text \<open>
  A C function either returns, or it does not return to its caller: the process exits, the
  C code does something the language leaves undefined, or a Lua error jumps to the protected
  call that is running (\<^verbatim>\<open>longjmp\<close> to the \<^verbatim>\<open>setjmp\<close> of that \<^verbatim>\<open>lua_pcall\<close>), with the
  error value and in the state given.
\<close>

datatype fault =
    Null_pointer
  | Bad_stack_index
  | Long_out_of_range
  | Not_a_table
  | Process_exit
  | Lua_error_jump lua_value world

datatype 'a outcome = Abort fault | Ok 'a

text \<open>
  A Lua API function that can raise a Lua error: it returns a value, raises an error value
  in a state, or is undefined.
\<close>

datatype 'a lua_op = Undefined fault | Throws lua_value world | Gives 'a world

subsection \<open>What the C code does not determine\<close>

text \<open>
  The behaviour of the Lua functions that are called, the Lua compiler, the formatting of
  numbers by Lua (\<^verbatim>\<open>"%.14g"\<close>), and the two functions of pythoninlua.c that this file
  calls, are parameters of the model.
\<close>

record env =
  fn_call :: "nat \<Rightarrow> lua_value list \<Rightarrow> world \<Rightarrow> (lua_value + lua_value list) \<times> world"
  load_chunk :: "string \<Rightarrow> string + nat"
  number2str :: "rat \<Rightarrow> string"
  py_convert :: "world \<Rightarrow> py_obj \<Rightarrow> bool \<Rightarrow> int lua_op"
  check_py_object :: "lua_value \<Rightarrow> py_obj option"

subsection \<open>The Lua C API (Lua 5.1) on this state\<close>

definition LUA_NOREF :: int where "LUA_NOREF = - 2"
definition LUA_REFNIL :: int where "LUA_REFNIL = - 1"
definition LUA_MULTRET :: int where "LUA_MULTRET = - 1"
definition LUA_ERRRUN :: int where "LUA_ERRRUN = 2"
definition LUA_ERRSYNTAX :: int where "LUA_ERRSYNTAX = 3"

definition index2adr :: "lua_value list \<Rightarrow> int \<Rightarrow> lua_value option" where
  "index2adr st n =
     (if 0 < n \<and> n \<le> int (length st) then Some (st ! nat (n - 1))
      else if n < 0 \<and> - n \<le> int (length st) then Some (st ! nat (int (length st) + n))
      else None)"

definition lua_gettop :: "world \<Rightarrow> int" where
  "lua_gettop w = int (length (stack w))"

definition lua_settop :: "world \<Rightarrow> int \<Rightarrow> world" where
  "lua_settop w n =
     (if 0 \<le> n then w\<lparr>stack := take (nat n) (stack w @ replicate (nat n) LNil)\<rparr>
      else w\<lparr>stack := take (nat (int (length (stack w)) + n + 1)) (stack w)\<rparr>)"

definition lua_pop :: "world \<Rightarrow> int \<Rightarrow> world" where
  "lua_pop w n = lua_settop w (- n - 1)"

definition push :: "lua_value \<Rightarrow> world \<Rightarrow> world" where
  "push v w = w\<lparr>stack := stack w @ [v]\<rparr>"

definition lua_pushnil :: "world \<Rightarrow> world" where
  "lua_pushnil w = push LNil w"

definition lua_pushboolean :: "world \<Rightarrow> bool \<Rightarrow> world" where
  "lua_pushboolean w b = push (LBoolean b) w"

definition lua_pushnumber :: "world \<Rightarrow> rat \<Rightarrow> world" where
  "lua_pushnumber w x = push (LNumber x) w"

definition lua_pushlstring :: "world \<Rightarrow> string \<Rightarrow> world" where
  "lua_pushlstring w s = push (LString s) w"

definition lua_pushvalue :: "world \<Rightarrow> int \<Rightarrow> world option" where
  "lua_pushvalue w n = (case index2adr (stack w) n of None \<Rightarrow> None | Some v \<Rightarrow> Some (push v w))"

definition lua_type :: "world \<Rightarrow> int \<Rightarrow> lua_tag" where
  "lua_type w n = (case index2adr (stack w) n of None \<Rightarrow> LUA_TNONE | Some v \<Rightarrow> tag_of v)"

definition lua_isnil :: "world \<Rightarrow> int \<Rightarrow> bool" where
  "lua_isnil w n = (lua_type w n = LUA_TNIL)"

definition lua_istable :: "world \<Rightarrow> int \<Rightarrow> bool" where
  "lua_istable w n = (lua_type w n = LUA_TTABLE)"

definition lua_toboolean :: "world \<Rightarrow> int \<Rightarrow> bool" where
  "lua_toboolean w n =
     (case index2adr (stack w) n of
        None \<Rightarrow> False | Some LNil \<Rightarrow> False | Some (LBoolean b) \<Rightarrow> b | Some _ \<Rightarrow> True)"

definition lua_tonumber :: "world \<Rightarrow> int \<Rightarrow> rat" where
  "lua_tonumber w n = (case index2adr (stack w) n of Some (LNumber x) \<Rightarrow> x | _ \<Rightarrow> 0)"

text \<open>
  \<^verbatim>\<open>lua_tolstring\<close> returns the string of a string or a number, and NULL for anything else.
  It also changes a number in the stack into that string; \<open>lua_tolstring_converts\<close> is the
  state after the call.
\<close>

definition lua_tolstring :: "env \<Rightarrow> world \<Rightarrow> int \<Rightarrow> string option" where
  "lua_tolstring e w n =
     (case index2adr (stack w) n of
        Some (LString s) \<Rightarrow> Some s
      | Some (LNumber x) \<Rightarrow> Some (number2str e x)
      | _ \<Rightarrow> None)"

definition stack_slot :: "lua_value list \<Rightarrow> int \<Rightarrow> nat" where
  "stack_slot st n = (if 0 < n then nat (n - 1) else nat (int (length st) + n))"

definition lua_tolstring_converts :: "env \<Rightarrow> world \<Rightarrow> int \<Rightarrow> world" where
  "lua_tolstring_converts e w n =
     w\<lparr>stack :=
         (case index2adr (stack w) n of
            Some (LNumber x) \<Rightarrow> (stack w)[stack_slot (stack w) n := LString (number2str e x)]
          | _ \<Rightarrow> stack w)\<rparr>"

text \<open>The registry, at its integer keys: a missing key reads as nil.\<close>

definition registry_get :: "world \<Rightarrow> int \<Rightarrow> lua_value" where
  "registry_get w r = (case map_of (registry w) r of None \<Rightarrow> LNil | Some v \<Rightarrow> v)"

definition lua_rawgeti :: "world \<Rightarrow> int \<Rightarrow> world" where
  "lua_rawgeti w r = push (registry_get w r) w"

definition lua_rawseti :: "world \<Rightarrow> int \<Rightarrow> world outcome" where
  "lua_rawseti w r =
     (case index2adr (stack w) (- 1) of
        None \<Rightarrow> Abort Bad_stack_index
      | Some v \<Rightarrow> Ok ((lua_pop w 1)\<lparr>registry := (r, v) # filter (\<lambda>kv. fst kv \<noteq> r) (registry w)\<rparr>))"

text \<open>
  \<^verbatim>\<open>luaL_ref\<close> pops the top of the stack and stores it under an integer key that is not in
  use, which it returns; for nil it stores nothing and returns \<^verbatim>\<open>LUA_REFNIL\<close>.
\<close>

definition fresh_ref :: "world \<Rightarrow> int" where
  "fresh_ref w = fold max (map fst (registry w)) 0 + 1"

definition luaL_ref :: "world \<Rightarrow> (int \<times> world) outcome" where
  "luaL_ref w =
     (case index2adr (stack w) (- 1) of
        None \<Rightarrow> Abort Bad_stack_index
      | Some LNil \<Rightarrow> Ok (LUA_REFNIL, lua_pop w 1)
      | Some v \<Rightarrow> Ok (fresh_ref w, (lua_pop w 1)\<lparr>registry := (fresh_ref w, v) # registry w\<rparr>))"

definition luaL_unref :: "world \<Rightarrow> int \<Rightarrow> world" where
  "luaL_unref w r =
     (if 0 \<le> r then w\<lparr>registry := filter (\<lambda>kv. fst kv \<noteq> r) (registry w)\<rparr> else w)"

definition lua_atpanic :: "world \<Rightarrow> lua_CFunction \<Rightarrow> lua_CFunction \<times> world" where
  "lua_atpanic w f = (panic w, w\<lparr>panic := f\<rparr>)"


text \<open>
  Tables, without metatables. Reading a missing key gives nil; storing nil removes the key;
  a new key goes to the end of the traversal order.
\<close>

definition rawget :: "lua_table \<Rightarrow> lua_value \<Rightarrow> lua_value" where
  "rawget t k = (case map_of t k of None \<Rightarrow> LNil | Some v \<Rightarrow> v)"

fun rawset :: "lua_table \<Rightarrow> lua_value \<Rightarrow> lua_value \<Rightarrow> lua_table" where
  "rawset [] k v = (if v = LNil then [] else [(k, v)])"
| "rawset ((k', v') # t) k v =
     (if k' = k then (if v = LNil then t else (k, v) # t) else (k', v') # rawset t k v)"

datatype next_result = Invalid_key | No_more | Next_pair lua_value lua_value

fun first_entry :: "lua_table \<Rightarrow> next_result" where
  "first_entry [] = No_more"
| "first_entry ((k, v) # t) = Next_pair k v"

fun entry_after :: "lua_table \<Rightarrow> lua_value \<Rightarrow> next_result" where
  "entry_after [] k = Invalid_key"
| "entry_after ((k', v') # t) k = (if k' = k then first_entry t else entry_after t k)"

definition luaH_next :: "lua_table \<Rightarrow> lua_value \<Rightarrow> next_result" where
  "luaH_next t k = (if k = LNil then first_entry t else entry_after t k)"

text \<open>The length of a table: the border reached by counting up from 1.\<close>

fun border :: "lua_table \<Rightarrow> nat \<Rightarrow> nat \<Rightarrow> nat" where
  "border t 0 n = n"
| "border t (Suc fuel) n =
     (if rawget t (LNumber (of_nat (Suc n))) = LNil then n else border t fuel (Suc n))"

definition index_error :: "lua_value \<Rightarrow> lua_value" where
  "index_error v = LString (''attempt to index a '' @ lua_typename (tag_of v) @ '' value'')"

text \<open>
  \<^verbatim>\<open>lua_gettable(L, idx)\<close>: pops the key and pushes \<open>t[key]\<close>, where \<open>t\<close> is the value at
  \<open>idx\<close>. Indexing a value that is not a table raises a Lua error.
\<close>

definition lua_gettable :: "world \<Rightarrow> int \<Rightarrow> unit lua_op" where
  "lua_gettable w idx =
     (case (index2adr (stack w) idx, index2adr (stack w) (- 1)) of
        (Some (LTable a), Some k) \<Rightarrow> Gives () (push (rawget (tables w a) k) (lua_pop w 1))
      | (Some t, Some k) \<Rightarrow> Throws (index_error t) w
      | _ \<Rightarrow> Undefined Bad_stack_index)"

text \<open>
  \<^verbatim>\<open>lua_settable(L, idx)\<close>: \<open>t[key] = value\<close> with the value on top and the key below it;
  pops both. A nil key raises a Lua error, and so does a \<open>t\<close> that is not a table.
\<close>

definition lua_settable :: "world \<Rightarrow> int \<Rightarrow> unit lua_op" where
  "lua_settable w idx =
     (case (index2adr (stack w) idx, index2adr (stack w) (- 2), index2adr (stack w) (- 1)) of
        (Some (LTable a), Some k, Some v) \<Rightarrow>
          (if k = LNil then Throws (LString ''table index is nil'') w
           else Gives () ((lua_pop w 2)\<lparr>tables := (tables w)(a := rawset (tables w a) k v)\<rparr>))
      | (Some t, Some k, Some v) \<Rightarrow> Throws (index_error t) w
      | _ \<Rightarrow> Undefined Bad_stack_index)"

text \<open>
  \<^verbatim>\<open>lua_next(L, idx)\<close>: pops a key and pushes the next key and value of the table at
  \<open>idx\<close>, returning 1; at the end of the table it pushes nothing and returns 0. A key that
  is not in the table raises a Lua error. The API requires a table at \<open>idx\<close>.
\<close>

definition lua_next :: "world \<Rightarrow> int \<Rightarrow> int lua_op" where
  "lua_next w idx =
     (case (index2adr (stack w) idx, index2adr (stack w) (- 1)) of
        (Some (LTable a), Some k) \<Rightarrow>
          (case luaH_next (tables w a) k of
             Invalid_key \<Rightarrow> Throws (LString ''invalid key to next'') (lua_pop w 1)
           | No_more \<Rightarrow> Gives 0 (lua_pop w 1)
           | Next_pair k' v' \<Rightarrow> Gives 1 (push v' (push k' (lua_pop w 1))))
      | (Some t, Some k) \<Rightarrow> Undefined Not_a_table
      | _ \<Rightarrow> Undefined Bad_stack_index)"

definition sizeof_py_object :: nat where "sizeof_py_object = 16"

definition lua_objlen :: "env \<Rightarrow> world \<Rightarrow> int \<Rightarrow> nat" where
  "lua_objlen e w idx =
     (case index2adr (stack w) idx of
        Some (LString s) \<Rightarrow> length s
      | Some (LNumber x) \<Rightarrow> length (number2str e x)
      | Some (LTable a) \<Rightarrow> border (tables w a) (length (tables w a)) 0
      | Some (LUserdata a n) \<Rightarrow> n
      | Some (LPyObject p) \<Rightarrow> sizeof_py_object
      | _ \<Rightarrow> 0)"

text \<open>
  \<^verbatim>\<open>lua_pcall(L, nargs, nresults, 0)\<close>: the function and its arguments are popped; on
  success the results, adjusted to \<open>nresults\<close>, are pushed and 0 is returned; on an error
  the error value alone is pushed and the status is not 0. What the called function does is
  given by \<open>fn_call\<close>; calling a value that is not a function is an error. The function
  runs with \<open>errorJmp\<close> set, and \<^verbatim>\<open>lua_pcall\<close> puts the previous value back.
\<close>

definition adjust_results :: "int \<Rightarrow> lua_value list \<Rightarrow> lua_value list" where
  "adjust_results nresults rs =
     (if nresults = LUA_MULTRET then rs else take (nat nresults) (rs @ replicate (nat nresults) LNil))"

definition call_value ::
  "env \<Rightarrow> lua_value \<Rightarrow> lua_value list \<Rightarrow> world \<Rightarrow> (lua_value + lua_value list) \<times> world" where
  "call_value e f args w =
     (case f of
        LFunction fid \<Rightarrow> fn_call e fid args w
      | _ \<Rightarrow> (Inl (LString (''attempt to call a '' @ lua_typename (tag_of f) @ '' value'')), w))"

definition lua_pcall :: "env \<Rightarrow> world \<Rightarrow> nat \<Rightarrow> int \<Rightarrow> (int \<times> world) outcome" where
  "lua_pcall e w nargs nresults =
     (let st = stack w; n = length st in
      if n < nargs + 1 then Abort Bad_stack_index
      else
        let base = take (n - nargs - 1) st;
            f = st ! (n - nargs - 1);
            args = drop (n - nargs) st
        in (case call_value e f args (w\<lparr>stack := base, errorJmp := True\<rparr>) of
              (Inl err, w') \<Rightarrow>
                Ok (LUA_ERRRUN, w'\<lparr>stack := base @ [err], errorJmp := errorJmp w\<rparr>)
            | (Inr rs, w') \<Rightarrow>
                Ok (0, w'\<lparr>stack := base @ adjust_results nresults rs, errorJmp := errorJmp w\<rparr>)))"

text \<open>
  \<^verbatim>\<open>luaL_loadbuffer\<close>: compiles the text and pushes the compiled chunk as a function, or
  pushes the error message and returns a status that is not 0.
\<close>

definition luaL_loadbuffer :: "env \<Rightarrow> world \<Rightarrow> string \<Rightarrow> int \<times> world" where
  "luaL_loadbuffer e w s =
     (case load_chunk e s of
        Inl msg \<Rightarrow> (LUA_ERRSYNTAX, push (LString msg) w)
      | Inr fid \<Rightarrow> (0, push (LFunction fid) w))"

subsection \<open>The CPython API on this state\<close>

definition PyErr_SetString :: "world \<Rightarrow> py_exc \<Rightarrow> string \<Rightarrow> world" where
  "PyErr_SetString w exc msg = w\<lparr>PyErr := Some (exc, msg)\<rparr>"

text \<open>The decimal digits of a number, as \<^verbatim>\<open>%d\<close> prints it.\<close>

fun decimal :: "nat \<Rightarrow> string" where
  "decimal n =
     (if n < 10 then [char_of (48 + n)] else decimal (n div 10) @ [char_of (48 + n mod 10)])"

declare decimal.simps [simp del]

text \<open>One allocation request: the state after it, or \<open>None\<close> when it returns NULL.\<close>

definition py_alloc :: "world \<Rightarrow> world option" where
  "py_alloc w =
     (case allocs w of
        [] \<Rightarrow> Some w
      | b # bs \<Rightarrow> (if b then Some (w\<lparr>allocs := bs\<rparr>) else None))"

text \<open>After a request that failed, the failure is used up.\<close>

definition py_alloc_failed :: "world \<Rightarrow> world" where
  "py_alloc_failed w = w\<lparr>allocs := tl (allocs w)\<rparr>"

definition py_new :: "world \<Rightarrow> py_obj \<Rightarrow> py_obj option \<times> world" where
  "py_new w obj = (case py_alloc w of None \<Rightarrow> (None, py_alloc_failed w) | Some w' \<Rightarrow> (Some obj, w'))"

definition PyString_FromStringAndSize :: "world \<Rightarrow> string \<Rightarrow> py_obj option \<times> world" where
  "PyString_FromStringAndSize w s = py_new w (PyString s)"

definition PyFloat_FromDouble :: "world \<Rightarrow> rat \<Rightarrow> py_obj option \<times> world" where
  "PyFloat_FromDouble w x = py_new w (PyFloat x)"

definition PyInt_FromLong :: "world \<Rightarrow> int \<Rightarrow> py_obj option \<times> world" where
  "PyInt_FromLong w i = py_new w (PyInt i)"

definition PyTuple_Size :: "py_obj list \<Rightarrow> nat" where
  "PyTuple_Size args = length args"

definition PyTuple_GetItem :: "py_obj list \<Rightarrow> nat \<Rightarrow> py_obj option" where
  "PyTuple_GetItem args i = (if i < length args then Some (args ! i) else None)"

text \<open>
  The C cast \<^verbatim>\<open>(long)num\<close> of a double: truncation towards zero, undefined when the
  result is not a long.
\<close>

definition LONG_MAX :: int where "LONG_MAX = 2 ^ 63 - 1"
definition LONG_MIN :: int where "LONG_MIN = - (2 ^ 63)"

definition truncate :: "rat \<Rightarrow> int" where
  "truncate x = (if 0 \<le> x then \<lfloor>x\<rfloor> else \<lceil>x\<rceil>)"

definition long_of_double :: "rat \<Rightarrow> int option" where
  "long_of_double x =
     (if LONG_MIN \<le> truncate x \<and> truncate x \<le> LONG_MAX then Some (truncate x) else None)"


subsection \<open>The protected boundary: the panic handler and TRY / CATCH / ENDTRY\<close>

text \<open>
  \<^verbatim>\<open>py_lua_panic\<close>: the error message on top of the Lua stack becomes a Python
  RuntimeError; the function then jumps to \<^verbatim>\<open>errjmp\<close>. For an error value that is neither
  a string nor a number \<^verbatim>\<open>lua_tolstring\<close> gives NULL and the length 0, and the message is
  the empty string.
\<close>

definition py_lua_panic :: "env \<Rightarrow> world \<Rightarrow> world" where
  "py_lua_panic e w =
     (lua_tolstring_converts e w (- 1))
       \<lparr>PyErr := Some (PyExc_RuntimeError, case lua_tolstring e w (- 1) of None \<Rightarrow> [] | Some s \<Rightarrow> s)\<rparr>"

text \<open>
  A Lua error (Lua 5.1, \<^verbatim>\<open>luaD_throw\<close>). While a protected call is running the error
  jumps to that call: control leaves the C function that made the API call, and the panic
  handler is not called. Otherwise the stack is reset to hold the error value alone and the
  installed panic handler is called: \<^verbatim>\<open>py_lua_panic\<close> jumps back to \<^verbatim>\<open>errjmp\<close>; after any
  other handler, and with no handler, the process exits.
\<close>

definition luaD_throw :: "env \<Rightarrow> lua_value \<Rightarrow> world \<Rightarrow> world outcome" where
  "luaD_throw e err w =
     (if errorJmp w then Abort (Lua_error_jump err w)
      else
        let w1 = w\<lparr>stack := [err]\<rparr>
        in case panic w1 of
             Fn_py_lua_panic \<Rightarrow> Ok (py_lua_panic e w1)
           | _ \<Rightarrow> Abort Process_exit)"

text \<open>
  The macros
  \<^verbatim>\<open>TRY body CATCH handler ENDTRY\<close>: the result is \<open>Some r\<close> when the body ran to
  its end (the first branch of the \<^verbatim>\<open>setjmp\<close> test) and \<open>None\<close> when the panic handler
  jumped back (the second branch, where the handler of the CATCH block runs). Each of the
  two branches puts the previous panic handler back. When the error of the body jumps to a
  running protected call, neither branch runs.
\<close>

definition TRY :: "env \<Rightarrow> (world \<Rightarrow> 'a lua_op) \<Rightarrow> world \<Rightarrow> ('a option \<times> world) outcome" where
  "TRY e body w =
     (case lua_atpanic w Fn_py_lua_panic of
        (old_panic, w1) \<Rightarrow>
          (case body w1 of
             Gives r w2 \<Rightarrow> Ok (Some r, snd (lua_atpanic w2 old_panic))
           | Throws err w2 \<Rightarrow>
               (case luaD_throw e err w2 of
                  Abort f \<Rightarrow> Abort f
                | Ok w3 \<Rightarrow> Ok (None, snd (lua_atpanic w3 old_panic)))
           | Undefined f \<Rightarrow> Abort f))"

subsection \<open>Lua object: LuaObject_New, LuaConvert, e_py_convert\<close>

definition LuaObject_New :: "env \<Rightarrow> world \<Rightarrow> int \<Rightarrow> (py_obj option \<times> world) outcome" where
  "LuaObject_New e w n =
     (case py_alloc w of
        None \<Rightarrow> Ok (None, py_alloc_failed w)
      | Some w1 \<Rightarrow>
          (case lua_pushvalue w1 n of
             None \<Rightarrow> Abort Bad_stack_index
           | Some w2 \<Rightarrow>
               (case luaL_ref w2 of
                  Abort f \<Rightarrow> Abort f
                | Ok (r, w3) \<Rightarrow> Ok (Some (PyLuaObject \<lparr>ref = r, refiter = LUA_NOREF\<rparr>), w3))))"

definition check_py_object_at :: "env \<Rightarrow> world \<Rightarrow> int \<Rightarrow> py_obj option" where
  "check_py_object_at e w n =
     (case index2adr (stack w) n of None \<Rightarrow> None | Some v \<Rightarrow> check_py_object e v)"

text \<open>
  \<^verbatim>\<open>LuaConvert\<close>, with \<^verbatim>\<open>LUA_NUMBER_DOUBLE\<close> defined. In the number case the source
  passes \<^verbatim>\<open>n\<close>, the stack index, to \<^verbatim>\<open>PyFloat_FromDouble\<close>.
\<close>

definition LuaConvert :: "env \<Rightarrow> world \<Rightarrow> int \<Rightarrow> (py_obj option \<times> world) outcome" where
  "LuaConvert e w n =
     (case lua_type w n of
        LUA_TNIL \<Rightarrow> Ok (Some Py_None, w)
      | LUA_TSTRING \<Rightarrow>
          (case lua_tolstring e w n of
             None \<Rightarrow> Abort Null_pointer
           | Some s \<Rightarrow> Ok (PyString_FromStringAndSize w s))
      | LUA_TNUMBER \<Rightarrow>
          (let num = lua_tonumber w n
           in case long_of_double num of
                None \<Rightarrow> Abort Long_out_of_range
              | Some l \<Rightarrow>
                  (if num \<noteq> of_int l then Ok (PyFloat_FromDouble w (of_int n))
                   else Ok (PyInt_FromLong w l)))
      | LUA_TBOOLEAN \<Rightarrow> Ok (Some (if lua_toboolean w n then Py_True else Py_False), w)
      | LUA_TUSERDATA \<Rightarrow>
          (case check_py_object_at e w n of
             Some obj \<Rightarrow> Ok (Some obj, w)
           | None \<Rightarrow> LuaObject_New e w n)
      | _ \<Rightarrow> LuaObject_New e w n)"

definition e_py_convert :: "env \<Rightarrow> world \<Rightarrow> py_obj \<Rightarrow> bool \<Rightarrow> (int \<times> world) outcome" where
  "e_py_convert e w obj withnone =
     (case TRY e (\<lambda>w'. py_convert e w' obj withnone) w of
        Abort f \<Rightarrow> Abort f
      | Ok (res, w1) \<Rightarrow>
          (let r = (case res of None \<Rightarrow> 0 | Some r \<Rightarrow> r)
           in if r = 0 then Ok (r, PyErr_SetString w1 PyExc_RuntimeError ''can't convert'')
              else Ok (r, w1)))"


subsection \<open>The call bridge: LuaCall\<close>

text \<open>
  The first loop of \<^verbatim>\<open>LuaCall\<close>, over the indices \<open>i = 0, ..., nargs - 1\<close>. The result
  \<open>False\<close> is the \<^verbatim>\<open>return NULL\<close> inside the loop.
\<close>

fun LuaCall_args :: "env \<Rightarrow> world \<Rightarrow> py_obj list \<Rightarrow> nat list \<Rightarrow> (bool \<times> world) outcome" where
  "LuaCall_args e w args [] = Ok (True, w)"
| "LuaCall_args e w args (i # rest) =
     (case PyTuple_GetItem args i of
        None \<Rightarrow>
          Ok (False,
              lua_settop (PyErr_SetString w PyExc_TypeError
                            (''failed to get tuple item #'' @ decimal i)) 0)
      | Some arg \<Rightarrow>
          (case e_py_convert e w arg False of
             Abort f \<Rightarrow> Abort f
           | Ok (rc, w1) \<Rightarrow>
               (if rc = 0 then
                  Ok (False,
                      lua_settop (PyErr_SetString w1 PyExc_TypeError
                                    (''failed to convert argument #'' @ decimal i)) 0)
                else LuaCall_args e w1 args rest)))"

text \<open>
  Reference counts are not part of the state. The one place where the source drops the last
  reference to objects it has just made is \<^verbatim>\<open>Py_DECREF(ret)\<close> on the result tuple: the
  tuple's items are released, and for a proxy that \<^verbatim>\<open>LuaObject_New\<close> made for the tuple
  this runs \<^verbatim>\<open>LuaObject_dealloc\<close>. The tuple under construction therefore records,
  for each item, whether \<^verbatim>\<open>LuaConvert\<close> made it with \<^verbatim>\<open>LuaObject_New\<close>.
\<close>

definition LuaObject_dealloc :: "world \<Rightarrow> LuaObject \<Rightarrow> world" where
  "LuaObject_dealloc w self =
     (let w1 = luaL_unref w (ref self)
      in if refiter self \<noteq> LUA_NOREF then luaL_unref w1 (refiter self) else w1)"

definition made_by_LuaObject_New :: "env \<Rightarrow> world \<Rightarrow> int \<Rightarrow> bool" where
  "made_by_LuaObject_New e w n =
     (lua_type w n \<notin> {LUA_TNIL, LUA_TSTRING, LUA_TNUMBER, LUA_TBOOLEAN}
      \<and> \<not> (lua_type w n = LUA_TUSERDATA \<and> check_py_object_at e w n \<noteq> None))"

fun Py_DECREF_tuple :: "world \<Rightarrow> (py_obj \<times> bool) list \<Rightarrow> world" where
  "Py_DECREF_tuple w [] = w"
| "Py_DECREF_tuple w ((PyLuaObject self, True) # items) =
     Py_DECREF_tuple (LuaObject_dealloc w self) items"
| "Py_DECREF_tuple w (item # items) = Py_DECREF_tuple w items"

text \<open>The second loop of \<^verbatim>\<open>LuaCall\<close>, which fills the result tuple.\<close>

fun LuaCall_results ::
  "env \<Rightarrow> world \<Rightarrow> nat list \<Rightarrow> (py_obj \<times> bool) list \<Rightarrow> (py_obj option \<times> world) outcome" where
  "LuaCall_results e w [] ret = Ok (Some (PyTuple (map fst ret)), w)"
| "LuaCall_results e w (i # rest) ret =
     (case LuaConvert e w (int i + 1) of
        Abort f \<Rightarrow> Abort f
      | Ok (None, w1) \<Rightarrow>
          Ok (None,
              Py_DECREF_tuple
                (lua_settop (PyErr_SetString w1 PyExc_TypeError
                               (''failed to convert return #'' @ decimal i)) 0)
                ret)
      | Ok (Some arg, w1) \<Rightarrow>
          LuaCall_results e w1 rest (ret @ [(arg, made_by_LuaObject_New e w (int i + 1))]))"

text \<open>
  \<^verbatim>\<open>LuaCall\<close>. The result \<open>None\<close> is the C return value NULL. \<^verbatim>\<open>PyErr_Format\<close> with
  \<^verbatim>\<open>%s\<close> reads its argument as a C string, so a NULL from \<^verbatim>\<open>lua_tostring\<close> is a
  null pointer access, and so is \<^verbatim>\<open>Py_DECREF\<close> of a NULL \<^verbatim>\<open>ret\<close>.
\<close>

definition LuaCall :: "env \<Rightarrow> world \<Rightarrow> py_obj list \<Rightarrow> (py_obj option \<times> world) outcome" where
  "LuaCall e w args =
     (let nargs = PyTuple_Size args
      in case LuaCall_args e w args [0..<nargs] of
           Abort f \<Rightarrow> Abort f
         | Ok (False, w1) \<Rightarrow> Ok (None, w1)
         | Ok (True, w1) \<Rightarrow>
             (case lua_pcall e w1 nargs LUA_MULTRET of
                Abort f \<Rightarrow> Abort f
              | Ok (status, w2) \<Rightarrow>
                  (if status \<noteq> 0 then
                     (case lua_tolstring e w2 (- 1) of
                        None \<Rightarrow> Abort Null_pointer
                      | Some msg \<Rightarrow>
                          Ok (None,
                              PyErr_SetString (lua_tolstring_converts e w2 (- 1))
                                PyExc_Exception (''error: '' @ msg)))
                   else
                     (let nargs = lua_gettop w2
                      in if nargs = 1 then
                           (case LuaConvert e w2 1 of
                              Abort f \<Rightarrow> Abort f
                            | Ok (None, w3) \<Rightarrow> Abort Null_pointer
                            | Ok (Some ret, w3) \<Rightarrow> Ok (Some ret, lua_settop w3 0))
                         else if nargs > 1 then
                           (case py_alloc w2 of
                              None \<Rightarrow>
                                Ok (None,
                                    lua_settop (PyErr_SetString (py_alloc_failed w2)
                                                  PyExc_RuntimeError
                                                  ''failed to create return tuple'') 0)
                            | Some w3 \<Rightarrow>
                                (case LuaCall_results e w3 [0..<nat nargs] [] of
                                   Abort f \<Rightarrow> Abort f
                                 | Ok (None, w4) \<Rightarrow> Ok (None, w4)
                                 | Ok (Some ret, w4) \<Rightarrow> Ok (Some ret, lua_settop w4 0)))
                         else Ok (Some Py_None, lua_settop w2 0)))))"

subsection \<open>The proxy's operations\<close>

definition LuaObject_getattr ::
  "env \<Rightarrow> world \<Rightarrow> LuaObject \<Rightarrow> py_obj \<Rightarrow> (py_obj option \<times> world) outcome" where
  "LuaObject_getattr e w obj attr =
     (let w1 = lua_rawgeti w (ref obj)
      in if lua_isnil w1 (- 1) then
           Ok (None, lua_settop (PyErr_SetString w1 PyExc_RuntimeError ''lost reference'') 0)
         else
           (case e_py_convert e w1 attr False of
              Abort f \<Rightarrow> Abort f
            | Ok (rc, w2) \<Rightarrow>
                (if rc \<noteq> 0 then
                   (case TRY e (\<lambda>w'. lua_gettable w' (- 2)) w2 of
                      Abort f \<Rightarrow> Abort f
                    | Ok (None, w3) \<Rightarrow> Ok (None, lua_settop w3 0)
                    | Ok (Some u, w3) \<Rightarrow>
                        (case LuaConvert e w3 (- 1) of
                           Abort f \<Rightarrow> Abort f
                         | Ok (ret, w4) \<Rightarrow> Ok (ret, lua_settop w4 0)))
                 else
                   Ok (None,
                       lua_settop (PyErr_SetString w2 PyExc_ValueError
                                     ''can't convert attr/key'') 0))))"

definition LuaObject_setattr ::
  "env \<Rightarrow> world \<Rightarrow> LuaObject \<Rightarrow> py_obj \<Rightarrow> py_obj \<Rightarrow> (int \<times> world) outcome" where
  "LuaObject_setattr e w obj attr val =
     (let w1 = lua_rawgeti w (ref obj)
      in if lua_isnil w1 (- 1) then
           Ok (- 1, lua_settop (PyErr_SetString w1 PyExc_RuntimeError ''lost reference'') 0)
         else if \<not> lua_istable w1 (- 1) then
           Ok (- 1,
               lua_settop (PyErr_SetString w1 PyExc_TypeError ''Lua object is not a table'') 0)
         else
           (case e_py_convert e w1 attr False of
              Abort f \<Rightarrow> Abort f
            | Ok (rc, w2) \<Rightarrow>
                (if rc \<noteq> 0 then
                   (case e_py_convert e w2 val False of
                      Abort f \<Rightarrow> Abort f
                    | Ok (rc', w3) \<Rightarrow>
                        (if rc' \<noteq> 0 then
                           (case TRY e (\<lambda>w'. lua_settable w' (- 3)) w3 of
                              Abort f \<Rightarrow> Abort f
                            | Ok (None, w4) \<Rightarrow> Ok (- 1, lua_settop w4 0)
                            | Ok (Some u, w4) \<Rightarrow> Ok (0, lua_settop w4 0))
                         else
                           Ok (- 1,
                               lua_settop (PyErr_SetString w3 PyExc_ValueError
                                             ''can't convert value'') 0)))
                 else
                   Ok (- 1,
                       lua_settop (PyErr_SetString w2 PyExc_ValueError
                                     ''can't convert key/attr'') 0))))"

definition LuaObject_call ::
  "env \<Rightarrow> world \<Rightarrow> LuaObject \<Rightarrow> py_obj list \<Rightarrow> (py_obj option \<times> world) outcome" where
  "LuaObject_call e w obj args = LuaCall e (lua_rawgeti (lua_settop w 0) (ref obj)) args"

text \<open>\<^verbatim>\<open>LuaObject_iternext\<close> returns its result, the proxy as it has updated it, and the state.\<close>

definition LuaObject_iternext ::
  "env \<Rightarrow> world \<Rightarrow> LuaObject \<Rightarrow> (py_obj option \<times> LuaObject \<times> world) outcome" where
  "LuaObject_iternext e w obj =
     (let w1 = lua_rawgeti w (ref obj);
          w2 = (if refiter obj = LUA_NOREF then lua_pushnil w1 else lua_rawgeti w1 (refiter obj))
      in case TRY e (\<lambda>w'. lua_next w' (- 2)) w2 of
           Abort f \<Rightarrow> Abort f
         | Ok (res, w3) \<Rightarrow>
             (let r = (case res of None \<Rightarrow> 0 | Some r \<Rightarrow> r)
              in if r \<noteq> 0 then
                   (let w4 = lua_pop w3 1
                    in case LuaConvert e w4 (- 1) of
                         Abort f \<Rightarrow> Abort f
                       | Ok (ret, w5) \<Rightarrow>
                           (if refiter obj = LUA_NOREF then
                              (case luaL_ref w5 of
                                 Abort f \<Rightarrow> Abort f
                               | Ok (r', w6) \<Rightarrow> Ok (ret, obj\<lparr>refiter := r'\<rparr>, w6))
                            else
                              (case lua_rawseti w5 (refiter obj) of
                                 Abort f \<Rightarrow> Abort f
                               | Ok w6 \<Rightarrow> Ok (ret, obj, w6))))
                 else if refiter obj \<noteq> LUA_NOREF then
                   Ok (None, obj\<lparr>refiter := LUA_NOREF\<rparr>, luaL_unref w3 (refiter obj))
                 else Ok (None, obj, w3)))"

definition LuaObject_length :: "env \<Rightarrow> world \<Rightarrow> LuaObject \<Rightarrow> nat \<times> world" where
  "LuaObject_length e w obj =
     (let w1 = lua_rawgeti w (ref obj);
          len = lua_objlen e w1 (- 1)
      in (len, lua_settop w1 0))"

subsection \<open>State object: LuaState_run, execute, eval and require\<close>

text \<open>
  \<^verbatim>\<open>PyArg_ParseTuple(args, "s#", &s, &len)\<close> accepts a tuple of one string; otherwise it
  sets a TypeError. The text of that error is CPython's; the model writes \<open>bad arguments\<close>
  for it.
\<close>

definition PyArg_ParseTuple_s :: "py_obj list \<Rightarrow> string option" where
  "PyArg_ParseTuple_s args = (case args of [PyString s] \<Rightarrow> Some s | _ \<Rightarrow> None)"

text \<open>
  \<^verbatim>\<open>LuaState_run\<close>. The buffer for the text of \<^verbatim>\<open>eval\<close> is allocated without a check:
  when the request fails, \<^verbatim>\<open>strcpy\<close> writes to NULL.
\<close>

definition LuaState_run ::
  "env \<Rightarrow> world \<Rightarrow> py_obj list \<Rightarrow> bool \<Rightarrow> (py_obj option \<times> world) outcome" where
  "LuaState_run e w args eval =
     (case PyArg_ParseTuple_s args of
        None \<Rightarrow> Ok (None, lua_settop (PyErr_SetString w PyExc_TypeError ''bad arguments'') 0)
      | Some s \<Rightarrow>
          (case (if eval then
                   (case py_alloc w of None \<Rightarrow> None | Some w1 \<Rightarrow> Some (''return '' @ s, w1))
                 else Some (s, w)) of
             None \<Rightarrow> Abort Null_pointer
           | Some (text, w1) \<Rightarrow>
               (case luaL_loadbuffer e w1 text of
                  (status, w2) \<Rightarrow>
                    (if status \<noteq> 0 then
                       (case lua_tolstring e w2 (- 1) of
                          None \<Rightarrow> Abort Null_pointer
                        | Some msg \<Rightarrow>
                            Ok (None,
                                lua_settop (PyErr_SetString (lua_tolstring_converts e w2 (- 1))
                                              PyExc_RuntimeError
                                              (''error loading code: '' @ msg)) 0))
                     else
                       (case lua_pcall e w2 0 1 of
                          Abort f \<Rightarrow> Abort f
                        | Ok (status', w3) \<Rightarrow>
                            (if status' \<noteq> 0 then
                               (case lua_tolstring e w3 (- 1) of
                                  None \<Rightarrow> Abort Null_pointer
                                | Some msg \<Rightarrow>
                                    Ok (None,
                                        lua_settop
                                          (PyErr_SetString (lua_tolstring_converts e w3 (- 1))
                                             PyExc_RuntimeError
                                             (''error executing code: '' @ msg)) 0))
                             else
                               (case LuaConvert e w3 (- 1) of
                                  Abort f \<Rightarrow> Abort f
                                | Ok (ret, w4) \<Rightarrow> Ok (ret, lua_settop w4 0))))))))"

text \<open>
  \<^verbatim>\<open>lua_rawget(L, LUA_GLOBALSINDEX)\<close>: pops the key and pushes the entry of the table of
  globals, without metamethods.
\<close>

definition lua_rawget_globals :: "world \<Rightarrow> world outcome" where
  "lua_rawget_globals w =
     (case index2adr (stack w) (- 1) of
        None \<Rightarrow> Abort Bad_stack_index
      | Some k \<Rightarrow> Ok (push (rawget (tables w (globals w)) k) (lua_pop w 1)))"

text \<open>
  \<^verbatim>\<open>LuaState_require\<close> pushes the global \<open>require\<close> on the stack as it finds it and
  hands over to \<^verbatim>\<open>LuaCall\<close>.
\<close>

definition LuaState_require :: "env \<Rightarrow> world \<Rightarrow> py_obj list \<Rightarrow> (py_obj option \<times> world) outcome" where
  "LuaState_require e w args =
     (case lua_rawget_globals (lua_pushlstring w ''require'') of
        Abort f \<Rightarrow> Abort f
      | Ok w1 \<Rightarrow>
          (if lua_isnil w1 (- 1) then
             Ok (None, PyErr_SetString (lua_pop w1 1) PyExc_RuntimeError ''require is not defined'')
           else LuaCall e w1 args))"

definition LuaState_execute :: "env \<Rightarrow> world \<Rightarrow> py_obj list \<Rightarrow> (py_obj option \<times> world) outcome" where
  "LuaState_execute e w args = LuaState_run e w args False"

definition LuaState_eval :: "env \<Rightarrow> world \<Rightarrow> py_obj list \<Rightarrow> (py_obj option \<times> world) outcome" where
  "LuaState_eval e w args = LuaState_run e w args True"


subsection \<open>The functions of pythoninlua.c that luainpython.c calls\<close>

text \<open>
  Modelled from the spec: \<^verbatim>\<open>py_convert\<close> of pythoninlua.c is not among the sources. The
  specification of \<open>to_guest\<close> says: the Host none becomes Guest nil only if \<open>allow_none\<close> is
  set and is rejected otherwise, with no Guest value pushed; boolean, int, float and string
  map to the Guest primitives; a proxy pushes its wrapped Guest value by dereferencing its
  registry handle; any other Host object is wrapped as an opaque Guest userdata, which always
  succeeds.
\<close>

definition spec_py_convert :: "world \<Rightarrow> py_obj \<Rightarrow> bool \<Rightarrow> int lua_op" where
  "spec_py_convert w obj withnone =
     (case obj of
        Py_None \<Rightarrow> (if withnone then Gives 1 (lua_pushnil w) else Gives 0 w)
      | Py_True \<Rightarrow> Gives 1 (lua_pushboolean w True)
      | Py_False \<Rightarrow> Gives 1 (lua_pushboolean w False)
      | PyInt i \<Rightarrow> Gives 1 (lua_pushnumber w (of_int i))
      | PyFloat x \<Rightarrow> Gives 1 (lua_pushnumber w x)
      | PyString s \<Rightarrow> Gives 1 (lua_pushlstring w s)
      | PyLuaObject self \<Rightarrow> Gives 1 (lua_rawgeti w (ref self))
      | _ \<Rightarrow> Gives 1 (push (LPyObject obj) w))"

text \<open>
  Modelled from the spec: \<^verbatim>\<open>check_py_object\<close> of pythoninlua.c is not among the sources.
  The specification of \<open>to_host\<close> says: a Guest opaque value previously created as a wrapper
  around a Host object is recognized and the original Host object is returned.
\<close>

definition spec_check_py_object :: "lua_value \<Rightarrow> py_obj option" where
  "spec_check_py_object v = (case v of LPyObject obj \<Rightarrow> Some obj | _ \<Rightarrow> None)"

subsection \<open>A small environment and state for concrete runs\<close>

text \<open>
  Function 0 returns its arguments, function 1 raises the error \<open>boom\<close>, function 2 returns
  the two numbers 2 and 3, function 3 returns the table at address 0, and every other
  function returns nothing. The compiler knows the chunks \<open>return 2, 3\<close> (function 2) and
  \<open>x = 1\<close> (function 4).
\<close>

definition test_fn ::
  "nat \<Rightarrow> lua_value list \<Rightarrow> world \<Rightarrow> (lua_value + lua_value list) \<times> world" where
  "test_fn fid args w =
     (if fid = 0 then (Inr args, w)
      else if fid = 1 then (Inl (LString ''boom''), w)
      else if fid = 2 then (Inr [LNumber 2, LNumber 3], w)
      else if fid = 3 then (Inr [LTable 0], w)
      else (Inr [], w))"

definition test_load :: "string \<Rightarrow> string + nat" where
  "test_load s =
     (if s = ''return 2, 3'' then Inr 2
      else if s = ''x = 1'' then Inr 4
      else Inl ''syntax error'')"

definition test_env :: env where
  "test_env =
     \<lparr>fn_call = test_fn, load_chunk = test_load, number2str = (\<lambda>x. ''<number>''),
      py_convert = spec_py_convert, check_py_object = spec_check_py_object\<rparr>"

text \<open>
  A state for the runs. The stack is empty, no protected call is running, and there is no
  panic handler, as \<^verbatim>\<open>LuaStateObject_init\<close> leaves them (\<^verbatim>\<open>lua_newstate\<close> takes the
  allocator and the allocator's user data, so
  \<^verbatim>\<open>lua_newstate(py_lua_alloc, py_lua_module_panic)\<close> installs no handler). The state has
  one table \<open>{a = 1, b = 2}\<close> at address 0, registered under handle 1, function 1
  registered under handle 2, and the table of globals at address 1, in which the global
  \<open>require\<close> has been set to function 0.
\<close>

definition test_world :: world where
  "test_world =
     \<lparr>stack = [], registry = [(1, LTable 0), (2, LFunction 1)],
      tables = (\<lambda>a. if a = 0 then [(LString ''a'', LNumber 1), (LString ''b'', LNumber 2)]
                     else if a = 1 then [(LString ''require'', LFunction 0)]
                     else []),
      globals = 1, panic = Fn_NULL, errorJmp = False, PyErr = None, allocs = []\<rparr>"


section \<open>Properties\<close>

subsection \<open>Auxiliary facts\<close>

lemmas lua_api_defs =
  LUA_NOREF_def LUA_REFNIL_def LUA_MULTRET_def LUA_ERRRUN_def LUA_ERRSYNTAX_def
  index2adr_def lua_gettop_def lua_settop_def lua_pop_def push_def lua_pushnil_def
  lua_pushboolean_def lua_pushnumber_def lua_pushlstring_def lua_pushvalue_def lua_type_def
  lua_isnil_def lua_istable_def lua_toboolean_def lua_tonumber_def lua_tolstring_def
  stack_slot_def lua_tolstring_converts_def
  registry_get_def lua_rawgeti_def lua_rawseti_def fresh_ref_def luaL_ref_def luaL_unref_def
  lua_atpanic_def rawget_def luaH_next_def index_error_def lua_gettable_def lua_settable_def
  lua_next_def lua_objlen_def adjust_results_def call_value_def lua_pcall_def
  luaL_loadbuffer_def lua_rawget_globals_def

lemmas py_api_defs =
  PyErr_SetString_def py_alloc_def py_alloc_failed_def py_new_def
  PyString_FromStringAndSize_def PyFloat_FromDouble_def PyInt_FromLong_def PyTuple_Size_def
  PyTuple_GetItem_def LONG_MAX_def LONG_MIN_def truncate_def long_of_double_def

lemmas bridge_defs =
  py_lua_panic_def luaD_throw_def TRY_def LuaObject_New_def check_py_object_at_def
  LuaConvert_def e_py_convert_def LuaObject_dealloc_def made_by_LuaObject_New_def LuaCall_def
  LuaObject_getattr_def LuaObject_setattr_def LuaObject_call_def LuaObject_iternext_def
  LuaObject_length_def PyArg_ParseTuple_s_def LuaState_run_def LuaState_execute_def
  LuaState_eval_def LuaState_require_def

lemmas test_defs =
  spec_py_convert_def spec_check_py_object_def test_fn_def test_load_def test_env_def
  test_world_def

lemma floor_rat_numeral_div [simp]:
  "\<lfloor>(numeral a :: rat) / numeral b\<rfloor> = numeral a div numeral b"
  using floor_divide_of_int_eq [of "numeral a" "numeral b", where ?'a = rat] by simp

lemma lua_settop_0: "lua_settop w 0 = w\<lparr>stack := []\<rparr>"
  by (simp add: lua_settop_def)

lemma LuaCall_args_fails:
  assumes "length ws = Suc (length pre)"
    and "\<forall>j<length pre. \<exists>rc. rc \<noteq> 0 \<and>
           e_py_convert e (ws ! j) (pre ! j) False = Ok (rc, ws ! Suc j)"
    and "e_py_convert e (ws ! length pre) a False = Ok (0, w')"
    and "args = done @ pre @ a # post"
  shows "LuaCall_args e (ws ! 0) args [length done ..< length args] =
         Ok (False, lua_settop (PyErr_SetString w' PyExc_TypeError
               (''failed to convert argument #'' @ decimal (length done + length pre))) 0)"
  using assms
proof (induction pre arbitrary: ws "done")
  case Nil
  have "length done < length args" using Nil.prems(4) by simp
  then have idx: "[length done ..< length args] = length done # [Suc (length done) ..< length args]"
    by (rule upt_conv_Cons)
  have item: "PyTuple_GetItem args (length done) = Some a"
    using Nil.prems(4) by (simp add: PyTuple_GetItem_def)
  have conv: "e_py_convert e (ws ! 0) a False = Ok (0, w')"
    using Nil.prems(3) by simp
  show ?case
    unfolding idx by (simp add: item conv)
next
  case (Cons b pre)
  from Cons.prems(1) obtain w0 ws' where ws: "ws = w0 # ws'" and len: "length ws' = Suc (length pre)"
    by (cases ws) auto
  have "\<exists>rc. rc \<noteq> 0 \<and> e_py_convert e (ws ! 0) ((b # pre) ! 0) False = Ok (rc, ws ! Suc 0)"
    using Cons.prems(2) by (rule allE [where x = 0]) simp
  then obtain rc where rc: "rc \<noteq> 0"
      and conv: "e_py_convert e w0 b False = Ok (rc, ws' ! 0)"
    using ws by auto
  have rest: "\<forall>j<length pre. \<exists>rc. rc \<noteq> 0 \<and>
           e_py_convert e (ws' ! j) (pre ! j) False = Ok (rc, ws' ! Suc j)"
  proof (intro allI impI)
    fix j assume "j < length pre"
    then have "Suc j < length (b # pre)" by simp
    with Cons.prems(2) have "\<exists>rc. rc \<noteq> 0 \<and>
           e_py_convert e (ws ! Suc j) ((b # pre) ! Suc j) False = Ok (rc, ws ! Suc (Suc j))"
      by blast
    then show "\<exists>rc. rc \<noteq> 0 \<and>
           e_py_convert e (ws' ! j) (pre ! j) False = Ok (rc, ws' ! Suc j)"
      using ws by simp
  qed
  have last: "e_py_convert e (ws' ! length pre) a False = Ok (0, w')"
    using Cons.prems(3) ws by simp
  have args: "args = (done @ [b]) @ pre @ a # post"
    using Cons.prems(4) by simp
  have "length done < length args" using Cons.prems(4) by simp
  then have idx: "[length done ..< length args] = length done # [Suc (length done) ..< length args]"
    by (rule upt_conv_Cons)
  have IH: "LuaCall_args e (ws' ! 0) args [length (done @ [b]) ..< length args] =
         Ok (False, lua_settop (PyErr_SetString w' PyExc_TypeError
               (''failed to convert argument #'' @ decimal (length (done @ [b]) + length pre))) 0)"
    by (rule Cons.IH [OF len rest last args])
  have item: "PyTuple_GetItem args (length done) = Some b"
    using Cons.prems(4) by (simp add: PyTuple_GetItem_def)
  have step: "LuaCall_args e w0 args (length done # [Suc (length done) ..< length args]) =
        LuaCall_args e (ws' ! 0) args [Suc (length done) ..< length args]"
    using rc by (simp add: item conv)
  show ?case
    unfolding idx using IH step ws by simp
qed

lemma LuaCall_args_succeeds:
  assumes "length ws = Suc (length pre)"
    and "\<forall>j<length pre. \<exists>rc. rc \<noteq> 0 \<and>
           e_py_convert e (ws ! j) (pre ! j) False = Ok (rc, ws ! Suc j)"
    and "args = done @ pre"
  shows "LuaCall_args e (ws ! 0) args [length done ..< length args] = Ok (True, ws ! length pre)"
  using assms
proof (induction pre arbitrary: ws "done")
  case Nil
  then show ?case by simp
next
  case (Cons b pre)
  from Cons.prems(1) obtain w0 ws' where ws: "ws = w0 # ws'" and len: "length ws' = Suc (length pre)"
    by (cases ws) auto
  have "\<exists>rc. rc \<noteq> 0 \<and> e_py_convert e (ws ! 0) ((b # pre) ! 0) False = Ok (rc, ws ! Suc 0)"
    using Cons.prems(2) by (rule allE [where x = 0]) simp
  then obtain rc where rc: "rc \<noteq> 0"
      and conv: "e_py_convert e w0 b False = Ok (rc, ws' ! 0)"
    using ws by auto
  have rest: "\<forall>j<length pre. \<exists>rc. rc \<noteq> 0 \<and>
           e_py_convert e (ws' ! j) (pre ! j) False = Ok (rc, ws' ! Suc j)"
  proof (intro allI impI)
    fix j assume "j < length pre"
    then have "Suc j < length (b # pre)" by simp
    with Cons.prems(2) have "\<exists>rc. rc \<noteq> 0 \<and>
           e_py_convert e (ws ! Suc j) ((b # pre) ! Suc j) False = Ok (rc, ws ! Suc (Suc j))"
      by blast
    then show "\<exists>rc. rc \<noteq> 0 \<and>
           e_py_convert e (ws' ! j) (pre ! j) False = Ok (rc, ws' ! Suc j)"
      using ws by simp
  qed
  have args: "args = (done @ [b]) @ pre"
    using Cons.prems(3) by simp
  have "length done < length args" using Cons.prems(3) by simp
  then have idx: "[length done ..< length args] = length done # [Suc (length done) ..< length args]"
    by (rule upt_conv_Cons)
  have IH: "LuaCall_args e (ws' ! 0) args [length (done @ [b]) ..< length args] =
         Ok (True, ws' ! length pre)"
    by (rule Cons.IH [OF len rest args])
  have item: "PyTuple_GetItem args (length done) = Some b"
    using Cons.prems(3) by (simp add: PyTuple_GetItem_def)
  have step: "LuaCall_args e w0 args (length done # [Suc (length done) ..< length args]) =
        LuaCall_args e (ws' ! 0) args [Suc (length done) ..< length args]"
    using rc by (simp add: item conv)
  show ?case
    unfolding idx using IH step ws by simp
qed

lemma LuaCall_results_succeeds:
  assumes "length ws = Suc (length vs)"
    and "\<forall>j<length vs. LuaConvert e (ws ! j) (int (i + j) + 1) = Ok (Some (vs ! j), ws ! Suc j)"
  shows "LuaCall_results e (ws ! 0) [i ..< i + length vs] ret =
           Ok (Some (PyTuple (map fst ret @ vs)), ws ! length vs)"
  using assms
proof (induction vs arbitrary: ws i ret)
  case Nil
  then show ?case by simp
next
  case (Cons v vs)
  from Cons.prems(1) obtain w0 ws' where ws: "ws = w0 # ws'" and len: "length ws' = Suc (length vs)"
    by (cases ws) auto
  have "LuaConvert e (ws ! 0) (int (i + 0) + 1) = Ok (Some ((v # vs) ! 0), ws ! Suc 0)"
    using Cons.prems(2) by (rule allE [where x = 0]) simp
  then have conv: "LuaConvert e w0 (int i + 1) = Ok (Some v, ws' ! 0)"
    using ws by simp
  have rest: "\<forall>j<length vs. LuaConvert e (ws' ! j) (int (Suc i + j) + 1) = Ok (Some (vs ! j), ws' ! Suc j)"
  proof (intro allI impI)
    fix j assume "j < length vs"
    then have "Suc j < length (v # vs)" by simp
    with Cons.prems(2) have "LuaConvert e (ws ! Suc j) (int (i + Suc j) + 1) =
         Ok (Some ((v # vs) ! Suc j), ws ! Suc (Suc j))"
      by blast
    then show "LuaConvert e (ws' ! j) (int (Suc i + j) + 1) = Ok (Some (vs ! j), ws' ! Suc j)"
      using ws by simp
  qed
  have "i < i + length (v # vs)" by simp
  then have "[i ..< i + length (v # vs)] = i # [Suc i ..< i + length (v # vs)]"
    by (rule upt_conv_Cons)
  then have idx: "[i ..< i + length (v # vs)] = i # [Suc i ..< Suc i + length vs]"
    by simp
  have IH: "LuaCall_results e (ws' ! 0) [Suc i ..< Suc i + length vs]
               (ret @ [(v, made_by_LuaObject_New e w0 (int i + 1))]) =
           Ok (Some (PyTuple (map fst (ret @ [(v, made_by_LuaObject_New e w0 (int i + 1))]) @ vs)),
               ws' ! length vs)"
    by (rule Cons.IH [OF len rest])
  have step: "LuaCall_results e w0 (i # [Suc i ..< Suc i + length vs]) ret =
        LuaCall_results e (ws' ! 0) [Suc i ..< Suc i + length vs]
               (ret @ [(v, made_by_LuaObject_New e w0 (int i + 1))])"
    by (simp add: conv)
  show ?case
    unfolding idx using IH step ws by simp
qed

lemma lua_tolstring_fn_call:
  "lua_tolstring (e\<lparr>fn_call := g\<rparr>) w n = lua_tolstring e w n"
  "lua_tolstring_converts (e\<lparr>fn_call := g\<rparr>) w n = lua_tolstring_converts e w n"
  by (simp_all add: lua_tolstring_def lua_tolstring_converts_def
      split: option.splits lua_value.splits)

lemma luaD_throw_fn_call:
  "luaD_throw (e\<lparr>fn_call := g\<rparr>) err w = luaD_throw e err w"
  by (simp add: luaD_throw_def py_lua_panic_def lua_tolstring_fn_call Let_def
      split: lua_CFunction.splits)

lemma e_py_convert_fn_call:
  "e_py_convert (e\<lparr>fn_call := g\<rparr>) w a b = e_py_convert e w a b"
  by (simp add: e_py_convert_def TRY_def luaD_throw_fn_call
      split: prod.splits lua_op.splits)

lemma LuaCall_args_fn_call:
  "LuaCall_args (e\<lparr>fn_call := g\<rparr>) w args is = LuaCall_args e w args is"
  by (induction "is" arbitrary: w)
     (simp_all add: e_py_convert_fn_call split: option.splits outcome.splits prod.splits)

subsection \<open>Argument conversion failure in the call bridge\<close>

text \<open>
  Claim C6. In \<^verbatim>\<open>LuaCall\<close>, when the conversions of the arguments \<open>0, ..., i - 1\<close> succeed
  (\<open>ws\<close> lists the states they run through) and the conversion of argument \<open>i\<close> fails, the
  bridge returns NULL with the Lua stack reset to empty and the TypeError
  \<open>failed to convert argument #i\<close> set. The state it returns is the one the failed
  conversion left, with only the error indicator and the stack changed: the call is not
  performed, and the result does not depend on what the Lua functions would do.
\<close>

theorem LuaCall_argument_conversion_failure:
  assumes "i < length args"
    and "length ws = Suc i"
    and "ws ! 0 = w"
    and "\<forall>j<i. \<exists>rc. rc \<noteq> 0 \<and>
           e_py_convert e (ws ! j) (args ! j) False = Ok (rc, ws ! Suc j)"
    and "e_py_convert e (ws ! i) (args ! i) False = Ok (0, w')"
  shows "LuaCall e w args =
           Ok (None, w'\<lparr>PyErr := Some (PyExc_TypeError,
                                      ''failed to convert argument #'' @ decimal i),
                       stack := []\<rparr>)
       \<and> LuaCall (e\<lparr>fn_call := g\<rparr>) w args = LuaCall e w args"
proof -
  define pre where "pre = take i args"
  define post where "post = drop (Suc i) args"
  have len: "length pre = i" using assms(1) by (simp add: pre_def)
  have args: "args = [] @ pre @ (args ! i) # post"
    using assms(1) by (simp add: pre_def post_def id_take_nth_drop)
  have l1: "length ws = Suc (length pre)" using assms(2) len by simp
  have l2: "\<forall>j<length pre. \<exists>rc. rc \<noteq> 0 \<and>
           e_py_convert e (ws ! j) (pre ! j) False = Ok (rc, ws ! Suc j)"
    using assms(4) len by (simp add: pre_def)
  have l3: "e_py_convert e (ws ! length pre) (args ! i) False = Ok (0, w')"
    using assms(5) len by simp
  have loop: "LuaCall_args e (ws ! 0) args [length ([]::py_obj list) ..< length args] =
         Ok (False, lua_settop (PyErr_SetString w' PyExc_TypeError
               (''failed to convert argument #'' @ decimal (length ([]::py_obj list) + length pre))) 0)"
    by (rule LuaCall_args_fails [OF l1 l2 l3 args])
  then have loop': "LuaCall_args e w args [0 ..< length args] =
         Ok (False, w'\<lparr>PyErr := Some (PyExc_TypeError,
                                      ''failed to convert argument #'' @ decimal i),
                       stack := []\<rparr>)"
    using assms(3) len by (simp add: lua_settop_0 PyErr_SetString_def)
  have first: "LuaCall e w args =
           Ok (None, w'\<lparr>PyErr := Some (PyExc_TypeError,
                                      ''failed to convert argument #'' @ decimal i),
                       stack := []\<rparr>)"
    by (simp add: LuaCall_def PyTuple_Size_def loop')
  have "LuaCall (e\<lparr>fn_call := g\<rparr>) w args = LuaCall e w args"
    by (simp add: LuaCall_def PyTuple_Size_def LuaCall_args_fn_call loop')
  with first show ?thesis by simp
qed

theorem LuaCall_argument_conversion_failure_witness:
  "LuaCall test_env (test_world\<lparr>stack := [LFunction 0]\<rparr>) [PyInt 1, Py_None, PyFloat (1 / 2)] =
     Ok (None, test_world\<lparr>PyErr := Some (PyExc_TypeError, ''failed to convert argument #1''),
                          stack := []\<rparr>)"
proof -
  let ?w = "test_world\<lparr>stack := [LFunction 0]\<rparr>"
  let ?w1 = "test_world\<lparr>stack := [LFunction 0, LNumber 1]\<rparr>"
  let ?w' = "test_world\<lparr>stack := [LFunction 0, LNumber 1],
                        PyErr := Some (PyExc_RuntimeError, ''can't convert'')\<rparr>"
  let ?args = "[PyInt 1, Py_None, PyFloat (1 / 2)]"
  have c0: "e_py_convert test_env ?w (PyInt 1) False = Ok (1, ?w1)"
    by (simp add: e_py_convert_def TRY_def lua_atpanic_def test_env_def spec_py_convert_def
        lua_pushnumber_def push_def test_world_def)
  have c1: "e_py_convert test_env ?w1 Py_None False = Ok (0, ?w')"
    by (simp add: e_py_convert_def TRY_def lua_atpanic_def test_env_def spec_py_convert_def
        PyErr_SetString_def test_world_def)
  have h1: "(1::nat) < length ?args" by simp
  have h2: "length [?w, ?w1] = Suc 1" by simp
  have h3: "[?w, ?w1] ! 0 = ?w" by simp
  have h4: "\<forall>j<(1::nat). \<exists>rc. rc \<noteq> 0 \<and>
           e_py_convert test_env ([?w, ?w1] ! j) (?args ! j) False = Ok (rc, [?w, ?w1] ! Suc j)"
    using c0 by simp
  have h5: "e_py_convert test_env ([?w, ?w1] ! 1) (?args ! 1) False = Ok (0, ?w')"
    using c1 by simp
  have d: "decimal 1 = ''1''" by code_simp
  show ?thesis
    using LuaCall_argument_conversion_failure [OF h1 h2 h3 h4 h5] d
    by (simp add: test_world_def)
qed

subsection \<open>The results of a call\<close>

lemma lua_pcall_returns:
  assumes "stack w1 = f # vals" and "length vals = n"
    and "call_value e f vals (w1\<lparr>stack := [], errorJmp := True\<rparr>) = (Inr rs, w2)"
  shows "lua_pcall e w1 n LUA_MULTRET = Ok (0, w2\<lparr>stack := rs, errorJmp := errorJmp w1\<rparr>)"
  using assms by (simp add: lua_pcall_def Let_def adjust_results_def)

lemma lua_pcall_raises:
  assumes "stack w1 = f # vals" and "length vals = n"
    and "call_value e f vals (w1\<lparr>stack := [], errorJmp := True\<rparr>) = (Inl err, w2)"
  shows "lua_pcall e w1 n nres = Ok (LUA_ERRRUN, w2\<lparr>stack := [err], errorJmp := errorJmp w1\<rparr>)"
  using assms by (simp add: lua_pcall_def Let_def)



lemma lua_pcall_returns_above:
  assumes "stack w1 = base @ f # vals" and "length vals = n"
    and "call_value e f vals (w1\<lparr>stack := base, errorJmp := True\<rparr>) = (Inr rs, w2)"
  shows "lua_pcall e w1 n LUA_MULTRET =
           Ok (0, w2\<lparr>stack := base @ rs, errorJmp := errorJmp w1\<rparr>)"
  using assms by (simp add: lua_pcall_def Let_def adjust_results_def)

text \<open>
  \<^verbatim>\<open>LuaCall\<close> counts the results of the call with \<^verbatim>\<open>lua_gettop\<close>, and converts the
  stack from slot 1 upwards. Let the stack hold the values \<open>base\<close> below the callee when
  \<^verbatim>\<open>LuaCall\<close> is entered, let every argument be converted (\<open>ws\<close> lists the states the
  conversions run through, \<open>vals\<close> the values they pushed) and let the protected call
  succeed with the results \<open>rs\<close>. What \<^verbatim>\<open>LuaCall\<close> returns is decided by the number of
  values in \<open>base @ rs\<close>: with none it returns Python's None; with one it returns
  \<^verbatim>\<open>LuaConvert\<close> of that value; with more than one it returns a tuple whose item \<open>j\<close> is
  \<^verbatim>\<open>LuaConvert\<close> of stack slot \<open>j + 1\<close>, the conversions running in order through the
  states \<open>us\<close>. In each case the Lua stack is empty afterwards.
\<close>

lemma LuaCall_stack_mapping:
  assumes "length ws = Suc (length args)"
    and "ws ! 0 = w"
    and "\<forall>j<length args. \<exists>rc. rc \<noteq> 0 \<and>
           e_py_convert e (ws ! j) (args ! j) False = Ok (rc, ws ! Suc j)"
    and "stack (ws ! length args) = base @ f # vals"
    and "length vals = length args"
    and "call_value e f vals ((ws ! length args)\<lparr>stack := base, errorJmp := True\<rparr>) = (Inr rs, w2)"
    and "w2' = w2\<lparr>errorJmp := errorJmp (ws ! length args)\<rparr>"
    and "st = base @ rs"
  shows "(st = [] \<longrightarrow> LuaCall e w args = Ok (Some Py_None, w2'\<lparr>stack := []\<rparr>))
       \<and> (\<forall>r v w3. st = [r] \<and> LuaConvert e (w2'\<lparr>stack := [r]\<rparr>) 1 = Ok (Some v, w3) \<longrightarrow>
              LuaCall e w args = Ok (Some v, w3\<lparr>stack := []\<rparr>))
       \<and> (\<forall>vs us. 1 < length st \<and> length vs = length st \<and> length us = Suc (length st)
              \<and> py_alloc (w2'\<lparr>stack := st\<rparr>) = Some (us ! 0)
              \<and> (\<forall>j<length st. LuaConvert e (us ! j) (int j + 1) = Ok (Some (vs ! j), us ! Suc j)) \<longrightarrow>
              LuaCall e w args = Ok (Some (PyTuple vs), (us ! length st)\<lparr>stack := []\<rparr>))"
proof -
  have args: "args = [] @ args" by simp
  have "LuaCall_args e (ws ! 0) args [length ([]::py_obj list) ..< length args] =
          Ok (True, ws ! length args)"
    by (rule LuaCall_args_succeeds [OF assms(1) assms(3) args])
  then have loop: "LuaCall_args e w args [0 ..< length args] = Ok (True, ws ! length args)"
    using assms(2) by simp
  have "lua_pcall e (ws ! length args) (length args) LUA_MULTRET =
          Ok (0, w2\<lparr>stack := base @ rs, errorJmp := errorJmp (ws ! length args)\<rparr>)"
    by (rule lua_pcall_returns_above [OF assms(4) assms(5) assms(6)])
  then have call: "lua_pcall e (ws ! length args) (length args) LUA_MULTRET =
          Ok (0, w2'\<lparr>stack := st\<rparr>)"
    using assms(7) assms(8) by simp
  have none: "LuaCall e w args = Ok (Some Py_None, w2'\<lparr>stack := []\<rparr>)" if "st = []"
    using that by (simp add: LuaCall_def PyTuple_Size_def loop call lua_gettop_def lua_settop_0)
  have one: "LuaCall e w args = Ok (Some v, w3\<lparr>stack := []\<rparr>)"
    if "st = [r]" and "LuaConvert e (w2'\<lparr>stack := [r]\<rparr>) 1 = Ok (Some v, w3)" for r v w3
    using that by (simp add: LuaCall_def PyTuple_Size_def loop call lua_gettop_def lua_settop_0)
  have many: "LuaCall e w args = Ok (Some (PyTuple vs), (us ! length st)\<lparr>stack := []\<rparr>)"
    if "1 < length st" and lv: "length vs = length st" and lu: "length us = Suc (length st)"
      and al: "py_alloc (w2'\<lparr>stack := st\<rparr>) = Some (us ! 0)"
      and cv: "\<forall>j<length st. LuaConvert e (us ! j) (int j + 1) = Ok (Some (vs ! j), us ! Suc j)"
    for vs us
  proof -
    have l1: "length us = Suc (length vs)" using lu lv by simp
    have l2: "\<forall>j<length vs. LuaConvert e (us ! j) (int (0 + j) + 1) = Ok (Some (vs ! j), us ! Suc j)"
      using cv lv by simp
    have "LuaCall_results e (us ! 0) [0 ..< 0 + length vs] [] =
            Ok (Some (PyTuple (map fst ([]::(py_obj \<times> bool) list) @ vs)), us ! length vs)"
      by (rule LuaCall_results_succeeds [OF l1 l2])
    then have res: "LuaCall_results e (us ! 0) [0 ..< length st] [] =
            Ok (Some (PyTuple vs), us ! length st)"
      using lv by simp
    show ?thesis
      using that(1) by (simp add: LuaCall_def PyTuple_Size_def loop call lua_gettop_def al res lua_settop_0)
  qed
  show ?thesis using none one many by blast
qed

lemma LuaObject_call_places_callee:
  "LuaObject_call e w self args = LuaCall e (w\<lparr>stack := [registry_get w (ref self)]\<rparr>) args"
  by (simp add: LuaObject_call_def lua_settop_0 lua_rawgeti_def push_def registry_get_def)

text \<open>
  \<^verbatim>\<open>LuaObject_call\<close> empties the stack before it pushes the callee, so a call through a
  proxy returns None for no result, the converted result for one, and the tuple of the
  converted results for more.
\<close>

lemma LuaObject_call_result_mapping:
  assumes "length ws = Suc (length args)"
    and "ws ! 0 = w\<lparr>stack := [registry_get w (ref self)]\<rparr>"
    and "\<forall>j<length args. \<exists>rc. rc \<noteq> 0 \<and>
           e_py_convert e (ws ! j) (args ! j) False = Ok (rc, ws ! Suc j)"
    and "stack (ws ! length args) = registry_get w (ref self) # vals"
    and "length vals = length args"
    and "call_value e (registry_get w (ref self)) vals
           ((ws ! length args)\<lparr>stack := [], errorJmp := True\<rparr>) = (Inr rs, w2)"
    and "w2' = w2\<lparr>errorJmp := errorJmp (ws ! length args)\<rparr>"
  shows "(rs = [] \<longrightarrow> LuaObject_call e w self args = Ok (Some Py_None, w2'\<lparr>stack := []\<rparr>))
       \<and> (\<forall>r v w3. rs = [r] \<and> LuaConvert e (w2'\<lparr>stack := [r]\<rparr>) 1 = Ok (Some v, w3) \<longrightarrow>
              LuaObject_call e w self args = Ok (Some v, w3\<lparr>stack := []\<rparr>))
       \<and> (\<forall>vs us. 1 < length rs \<and> length vs = length rs \<and> length us = Suc (length rs)
              \<and> py_alloc (w2'\<lparr>stack := rs\<rparr>) = Some (us ! 0)
              \<and> (\<forall>j<length rs. LuaConvert e (us ! j) (int j + 1) = Ok (Some (vs ! j), us ! Suc j)) \<longrightarrow>
              LuaObject_call e w self args = Ok (Some (PyTuple vs), (us ! length rs)\<lparr>stack := []\<rparr>))"
proof -
  have s4: "stack (ws ! length args) = [] @ registry_get w (ref self) # vals"
    using assms(4) by simp
  have st: "rs = [] @ rs" by simp
  show ?thesis
    unfolding LuaObject_call_places_callee
    by (rule LuaCall_stack_mapping [OF assms(1) assms(2) assms(3) s4 assms(5) assms(6) assms(7) st])
qed

text \<open>
  Claim C5. The claim has the single result of a call returned as that result converted, and
  a call without results returned as None. \<^verbatim>\<open>LuaObject_iternext\<close> leaves the wrapped table
  on the Lua stack, and \<^verbatim>\<open>LuaState_require\<close> pushes the callee on top of what the stack
  holds. After one step of an iteration, with \<open>require\<close> the function that returns its
  arguments, \<^verbatim>\<open>require(7)\<close> has the one result 7 and returns the tuple of a new proxy of
  the table and 7, and \<^verbatim>\<open>require()\<close> has no result and returns a new proxy of the table.
  On the empty stack \<^verbatim>\<open>require(7)\<close> returns 7 and \<^verbatim>\<open>require()\<close> returns None.
\<close>


theorem LuaCall_counts_values_below_callee:
  "LuaObject_iternext test_env test_world \<lparr>ref = 1, refiter = LUA_NOREF\<rparr> =
     Ok (Some (PyString ''a''), \<lparr>ref = 1, refiter = 3\<rparr>,
         test_world\<lparr>stack := [LTable 0], registry := (3, LString ''a'') # registry test_world\<rparr>)
   \<and> LuaState_require test_env
        (test_world\<lparr>stack := [LTable 0], registry := (3, LString ''a'') # registry test_world\<rparr>)
        [PyInt 7] =
     Ok (Some (PyTuple [PyLuaObject \<lparr>ref = 4, refiter = LUA_NOREF\<rparr>, PyInt 7]),
         test_world\<lparr>stack := [],
                     registry := (4, LTable 0) # (3, LString ''a'') # registry test_world\<rparr>)
   \<and> LuaState_require test_env
        (test_world\<lparr>stack := [LTable 0], registry := (3, LString ''a'') # registry test_world\<rparr>)
        [] =
     Ok (Some (PyLuaObject \<lparr>ref = 4, refiter = LUA_NOREF\<rparr>),
         test_world\<lparr>stack := [],
                     registry := (4, LTable 0) # (3, LString ''a'') # registry test_world\<rparr>)
   \<and> LuaState_require test_env test_world [PyInt 7] = Ok (Some (PyInt 7), test_world)
   \<and> LuaState_require test_env test_world [] = Ok (Some Py_None, test_world)"
proof -
  have slots: "[0..<2] = [0, Suc 0]" by (simp add: numeral_2_eq_2)
  show ?thesis
    by (simp add: lua_api_defs py_api_defs bridge_defs test_defs Let_def slots)
qed

subsection \<open>The panic handler across the protected boundary\<close>

lemma py_new_frame:
  "py_new w obj = (r, w') \<Longrightarrow>
     stack w' = stack w \<and> panic w' = panic w \<and> tables w' = tables w \<and> PyErr w' = PyErr w
     \<and> registry w' = registry w"
  by (auto simp add: py_new_def py_alloc_def py_alloc_failed_def split: list.splits if_splits)

lemma lua_pop_push: "lua_pop (push v w) 1 = w"
  by (simp add: lua_pop_def lua_settop_def push_def)

lemma LuaObject_New_frame:
  assumes "LuaObject_New e w n = Ok (r, w')"
  shows "stack w' = stack w \<and> panic w' = panic w \<and> tables w' = tables w \<and> PyErr w' = PyErr w"
  using assms
  by (auto simp add: LuaObject_New_def py_alloc_def py_alloc_failed_def lua_pushvalue_def
      luaL_ref_def index2adr_def push_def lua_pop_def lua_settop_def
      split: list.splits if_splits option.splits lua_value.splits)

lemma LuaConvert_frame:
  assumes "LuaConvert e w n = Ok (r, w')"
  shows "stack w' = stack w \<and> panic w' = panic w \<and> tables w' = tables w \<and> PyErr w' = PyErr w"
proof (cases "lua_type w n")
  case LUA_TSTRING
  then show ?thesis using assms
    by (auto simp add: LuaConvert_def PyString_FromStringAndSize_def
        dest: py_new_frame split: option.splits)
next
  case LUA_TNUMBER
  then show ?thesis using assms
    by (auto simp add: LuaConvert_def Let_def PyFloat_FromDouble_def PyInt_FromLong_def
        dest: py_new_frame split: option.splits if_splits)
next
  case LUA_TUSERDATA
  then show ?thesis using assms
    by (auto simp add: LuaConvert_def dest: LuaObject_New_frame split: option.splits)
qed (use assms in \<open>auto simp add: LuaConvert_def dest: LuaObject_New_frame\<close>)

lemma TRY_panic:
  fixes body :: "world \<Rightarrow> 'a lua_op"
  assumes "TRY e body w = Ok (res, w')"
  shows "panic w' = panic w"
  using assms
  by (auto simp add: TRY_def lua_atpanic_def luaD_throw_def py_lua_panic_def Let_def
      split: lua_op.splits outcome.splits lua_CFunction.splits)

lemma e_py_convert_panic:
  assumes "e_py_convert e w obj withnone = Ok (rc, w')"
  shows "panic w' = panic w"
proof -
  obtain res w1 where t: "TRY e (\<lambda>u. py_convert e u obj withnone) w = Ok (res, w1)"
      and p: "panic w' = panic w1"
    using assms
    by (auto simp add: e_py_convert_def Let_def PyErr_SetString_def
        split: outcome.splits if_splits)
  from TRY_panic [OF t] p show ?thesis by simp
qed

lemma lua_settop_panic: "panic (lua_settop w n) = panic w"
  by (simp add: lua_settop_def)

lemma LuaObject_getattr_panic:
  assumes "LuaObject_getattr e w obj attr = Ok (r, w')"
  shows "panic w' = panic w"
proof -
  let ?w1 = "lua_rawgeti w (ref obj)"
  have p1: "panic ?w1 = panic w" by (simp add: lua_rawgeti_def push_def)
  show ?thesis
  proof (cases "lua_isnil ?w1 (- 1)")
    case True
    then show ?thesis using assms p1
      by (auto simp add: LuaObject_getattr_def Let_def PyErr_SetString_def lua_settop_panic)
  next
    case False
    then obtain rc w2 where c: "e_py_convert e ?w1 attr False = Ok (rc, w2)"
      using assms by (auto simp add: LuaObject_getattr_def Let_def split: outcome.splits)
    have p2: "panic w2 = panic w" using e_py_convert_panic [OF c] p1 by simp
    show ?thesis
    proof (cases "rc = 0")
      case True
      then show ?thesis using assms False c p2
        by (auto simp add: LuaObject_getattr_def Let_def PyErr_SetString_def lua_settop_panic)
    next
      case rc: False
      then obtain res w3 where t: "TRY e (\<lambda>u. lua_gettable u (- 2)) w2 = Ok (res, w3)"
        using assms False c
        by (auto simp add: LuaObject_getattr_def Let_def split: outcome.splits)
      have p3: "panic w3 = panic w" using TRY_panic [OF t] p2 by simp
      show ?thesis
      proof (cases res)
        case None
        then show ?thesis using assms False c rc t p3
          by (auto simp add: LuaObject_getattr_def Let_def lua_settop_panic)
      next
        case (Some u)
        then obtain w4 where l: "LuaConvert e w3 (- 1) = Ok (r, w4)" and w': "w' = lua_settop w4 0"
          using assms False c rc t
          by (auto simp add: LuaObject_getattr_def Let_def split: outcome.splits)
        from LuaConvert_frame [OF l] w' p3 show ?thesis by (simp add: lua_settop_panic)
      qed
    qed
  qed
qed

lemma LuaObject_setattr_panic:
  assumes "LuaObject_setattr e w obj attr val = Ok (r, w')"
  shows "panic w' = panic w"
proof -
  let ?w1 = "lua_rawgeti w (ref obj)"
  have p1: "panic ?w1 = panic w" by (simp add: lua_rawgeti_def push_def)
  show ?thesis
  proof (cases "lua_isnil ?w1 (- 1) \<or> \<not> lua_istable ?w1 (- 1)")
    case True
    then show ?thesis using assms p1
      by (auto simp add: LuaObject_setattr_def Let_def PyErr_SetString_def lua_settop_panic
          split: if_splits)
  next
    case False
    then obtain rc w2 where c: "e_py_convert e ?w1 attr False = Ok (rc, w2)"
      using assms by (auto simp add: LuaObject_setattr_def Let_def split: outcome.splits)
    have p2: "panic w2 = panic w" using e_py_convert_panic [OF c] p1 by simp
    show ?thesis
    proof (cases "rc = 0")
      case True
      then show ?thesis using assms False c p2
        by (auto simp add: LuaObject_setattr_def Let_def PyErr_SetString_def lua_settop_panic)
    next
      case rc: False
      then obtain rc' w3 where c': "e_py_convert e w2 val False = Ok (rc', w3)"
        using assms False c
        by (auto simp add: LuaObject_setattr_def Let_def split: outcome.splits)
      have p3: "panic w3 = panic w" using e_py_convert_panic [OF c'] p2 by simp
      show ?thesis
      proof (cases "rc' = 0")
        case True
        then show ?thesis using assms False c rc c' p3
          by (auto simp add: LuaObject_setattr_def Let_def PyErr_SetString_def lua_settop_panic)
      next
        case rc': False
        then obtain res w4 where t: "TRY e (\<lambda>u. lua_settable u (- 3)) w3 = Ok (res, w4)"
            and w': "w' = lua_settop w4 0"
          using assms False c rc c'
          by (auto simp add: LuaObject_setattr_def Let_def split: outcome.splits option.splits)
        from TRY_panic [OF t] w' p3 show ?thesis by (simp add: lua_settop_panic)
      qed
    qed
  qed
qed

lemma LuaObject_iternext_panic:
  assumes "LuaObject_iternext e w obj = Ok (r, obj', w')"
  shows "panic w' = panic w"
proof -
  let ?w1 = "lua_rawgeti w (ref obj)"
  let ?w2 = "if refiter obj = LUA_NOREF then lua_pushnil ?w1 else lua_rawgeti ?w1 (refiter obj)"
  have p2: "panic ?w2 = panic w" by (simp add: lua_rawgeti_def lua_pushnil_def push_def)
  obtain res w3 where t: "TRY e (\<lambda>u. lua_next u (- 2)) ?w2 = Ok (res, w3)"
    using assms by (auto simp add: LuaObject_iternext_def Let_def split: outcome.splits)
  have p3: "panic w3 = panic w" using TRY_panic [OF t] p2 by simp
  show ?thesis
  proof (cases "(case res of None \<Rightarrow> 0 | Some r \<Rightarrow> r) = 0")
    case True
    then show ?thesis using assms t p3
      by (auto simp add: LuaObject_iternext_def Let_def luaL_unref_def split: if_splits)
  next
    case False
    then obtain w5 where l: "LuaConvert e (lua_pop w3 1) (- 1) = Ok (r, w5)"
      and fin: "(refiter obj = LUA_NOREF \<and> (\<exists>r'. luaL_ref w5 = Ok (r', w')))
              \<or> (refiter obj \<noteq> LUA_NOREF \<and> lua_rawseti w5 (refiter obj) = Ok w')"
      using assms t
      by (auto simp add: LuaObject_iternext_def Let_def split: outcome.splits if_splits)
    have p5: "panic w5 = panic w"
      using LuaConvert_frame [OF l] p3 by (simp add: lua_pop_def lua_settop_panic)
    from fin p5 show ?thesis
      by (auto simp add: luaL_ref_def lua_rawseti_def lua_pop_def lua_settop_panic
          split: option.splits lua_value.splits)
  qed
qed

text \<open>
  What the macros do with the panic handler. \<^verbatim>\<open>TRY\<close> runs its body with
  \<^verbatim>\<open>py_lua_panic\<close> installed. When the body runs to its end, the previous handler is put
  back. When the body raises a Lua error while no protected call is running, the error
  reaches \<^verbatim>\<open>py_lua_panic\<close>, which jumps back, and the previous handler is put back. When the
  body raises a Lua error while a protected call is running, the error jumps to that call,
  in the state the body left, and the macros do not return. So whenever the macros return,
  the handler is the one from before, and the same holds for the functions that use them:
  \<^verbatim>\<open>e_py_convert\<close>, \<^verbatim>\<open>LuaObject_getattr\<close>, \<^verbatim>\<open>LuaObject_setattr\<close> and
  \<^verbatim>\<open>LuaObject_iternext\<close>.
\<close>

lemma TRY_panic_handler:
  fixes body :: "world \<Rightarrow> 'a lua_op"
  shows "TRY e body w = TRY e (\<lambda>u. body (w\<lparr>panic := Fn_py_lua_panic\<rparr>)) w
     \<and> (\<forall>r w2. body (w\<lparr>panic := Fn_py_lua_panic\<rparr>) = Gives r w2 \<longrightarrow>
            TRY e body w = Ok (Some r, w2\<lparr>panic := panic w\<rparr>))
     \<and> (\<forall>err w2. body (w\<lparr>panic := Fn_py_lua_panic\<rparr>) = Throws err w2
                   \<and> \<not> errorJmp w2 \<and> panic w2 = Fn_py_lua_panic \<longrightarrow>
            TRY e body w =
              Ok (None, (py_lua_panic e (w2\<lparr>stack := [err]\<rparr>))\<lparr>panic := panic w\<rparr>))
     \<and> (\<forall>err w2. body (w\<lparr>panic := Fn_py_lua_panic\<rparr>) = Throws err w2 \<and> errorJmp w2 \<longrightarrow>
            TRY e body w = Abort (Lua_error_jump err w2))
     \<and> (\<forall>res w'. TRY e body w = Ok (res, w') \<longrightarrow> panic w' = panic w)
     \<and> (\<forall>rc w'. e_py_convert e w obj withnone = Ok (rc, w') \<longrightarrow> panic w' = panic w)
     \<and> (\<forall>r w'. LuaObject_getattr e w self attr = Ok (r, w') \<longrightarrow> panic w' = panic w)
     \<and> (\<forall>r w'. LuaObject_setattr e w self attr val = Ok (r, w') \<longrightarrow> panic w' = panic w)
     \<and> (\<forall>r self' w'. LuaObject_iternext e w self = Ok (r, self', w') \<longrightarrow> panic w' = panic w)"
proof -
  have a: "TRY e body w = TRY e (\<lambda>u. body (w\<lparr>panic := Fn_py_lua_panic\<rparr>)) w"
    by (simp add: TRY_def lua_atpanic_def)
  have b: "TRY e body w = Ok (Some r, w2\<lparr>panic := panic w\<rparr>)"
    if "body (w\<lparr>panic := Fn_py_lua_panic\<rparr>) = Gives r w2" for r w2
    using that by (simp add: TRY_def lua_atpanic_def)
  have c: "TRY e body w = Ok (None, (py_lua_panic e (w2\<lparr>stack := [err]\<rparr>))\<lparr>panic := panic w\<rparr>)"
    if "body (w\<lparr>panic := Fn_py_lua_panic\<rparr>) = Throws err w2
        \<and> \<not> errorJmp w2 \<and> panic w2 = Fn_py_lua_panic"
    for err w2
    using that by (simp add: TRY_def lua_atpanic_def luaD_throw_def Let_def)
  have d: "TRY e body w = Abort (Lua_error_jump err w2)"
    if "body (w\<lparr>panic := Fn_py_lua_panic\<rparr>) = Throws err w2 \<and> errorJmp w2"
    for err w2
    using that by (simp add: TRY_def lua_atpanic_def luaD_throw_def Let_def)
  show ?thesis
    using a b c d TRY_panic [of e body w] e_py_convert_panic [of e w obj withnone]
      LuaObject_getattr_panic [of e w self attr] LuaObject_setattr_panic [of e w self attr val]
      LuaObject_iternext_panic [of e w self]
    by blast
qed

text \<open>
  Claim C8. The claim has the previous handler put back after every use of the boundary.
  Take the state with no panic handler, while a protected call is running, and a proxy of a
  function. Reading an attribute of the proxy makes \<^verbatim>\<open>lua_gettable\<close> raise the Lua error
  \<open>attempt to index a function value\<close> inside \<^verbatim>\<open>TRY\<close>. The error jumps to the running
  protected call: neither branch of the macros runs, \<^verbatim>\<open>LuaObject_getattr\<close> does not return
  to its caller, and \<^verbatim>\<open>py_lua_panic\<close> stays installed. With no protected call running, the
  same error reaches \<^verbatim>\<open>py_lua_panic\<close> and \<^verbatim>\<open>LuaObject_getattr\<close> returns NULL with the
  previous handler put back.
\<close>


theorem TRY_error_in_protected_call_keeps_py_lua_panic:
  "panic (test_world\<lparr>errorJmp := True\<rparr>) = Fn_NULL
   \<and> TRY test_env (\<lambda>u. lua_gettable u (- 2))
        (test_world\<lparr>stack := [LFunction 1, LString ''x''], errorJmp := True\<rparr>) =
     Abort (Lua_error_jump (LString ''attempt to index a function value'')
              (test_world\<lparr>stack := [LFunction 1, LString ''x''], panic := Fn_py_lua_panic,
                           errorJmp := True\<rparr>))
   \<and> LuaObject_getattr test_env (test_world\<lparr>errorJmp := True\<rparr>)
        \<lparr>ref = 2, refiter = LUA_NOREF\<rparr> (PyString ''x'') =
     Abort (Lua_error_jump (LString ''attempt to index a function value'')
              (test_world\<lparr>stack := [LFunction 1, LString ''x''], panic := Fn_py_lua_panic,
                           errorJmp := True\<rparr>))
   \<and> LuaObject_getattr test_env test_world \<lparr>ref = 2, refiter = LUA_NOREF\<rparr> (PyString ''x'') =
     Ok (None, test_world\<lparr>PyErr := Some (PyExc_RuntimeError,
                                          ''attempt to index a function value'')\<rparr>)"
  by (simp add: lua_api_defs py_api_defs bridge_defs test_defs Let_def)

subsection \<open>execute and eval\<close>

lemma lua_pcall_one_result:
  assumes "call_value e f [] (w\<lparr>errorJmp := True\<rparr>) = (Inr rs, w')"
  shows "lua_pcall e (w\<lparr>stack := stack w @ [f]\<rparr>) 0 1 =
           Ok (0, w'\<lparr>stack := stack w @ [hd (rs @ [LNil])], errorJmp := errorJmp w\<rparr>)"
proof -
  have "take (Suc 0) (rs @ [LNil]) = [hd (rs @ [LNil])]" by (cases rs) simp_all
  then show ?thesis using assms
    by (simp add: lua_pcall_def Let_def adjust_results_def LUA_MULTRET_def)
qed

lemma lua_pcall_one_error:
  assumes "call_value e f [] (w\<lparr>errorJmp := True\<rparr>) = (Inl err, w')"
  shows "lua_pcall e (w\<lparr>stack := stack w @ [f]\<rparr>) 0 1 =
           Ok (LUA_ERRRUN, w'\<lparr>stack := stack w @ [err], errorJmp := errorJmp w\<rparr>)"
  using assms by (simp add: lua_pcall_def Let_def)

lemma lua_tolstring_top_string: "lua_tolstring e (w\<lparr>stack := st @ [LString m]\<rparr>) (- 1) = Some m"
  by (simp add: lua_tolstring_def index2adr_def)

lemma lua_tolstring_errorJmp: "lua_tolstring e (w\<lparr>errorJmp := b\<rparr>) n = lua_tolstring e w n"
  by (simp add: lua_tolstring_def)

lemma lua_tolstring_converts_stack:
  "(lua_tolstring_converts e w n)\<lparr>stack := st\<rparr> = w\<lparr>stack := st\<rparr>"
  "panic (lua_tolstring_converts e w n) = panic w"
  by (simp_all add: lua_tolstring_converts_def)

text \<open>
  Claim C9. \<^verbatim>\<open>execute(s)\<close> hands the text \<open>s\<close> itself to the Lua compiler: a compile error
  for \<open>s\<close> is reported, and otherwise the chunk compiled from \<open>s\<close> is called without
  arguments. Exactly one result is taken from that call: the value converted is the first
  result of the chunk, or nil when the chunk returns nothing, whatever the number of values
  the chunk returns. \<^verbatim>\<open>eval(s)\<close> does the same with the text \<open>return\<close>, a blank and \<open>s\<close>,
  once the buffer for that text is allocated.
\<close>


theorem LuaState_run_compiles_text:
  "(\<forall>msg. load_chunk e s = Inl msg \<longrightarrow>
      LuaState_execute e w [PyString s] =
        Ok (None, w\<lparr>PyErr := Some (PyExc_RuntimeError, ''error loading code: '' @ msg),
                     stack := []\<rparr>))
   \<and> (\<forall>fid rs w'. load_chunk e s = Inr fid \<and> fn_call e fid [] (w\<lparr>errorJmp := True\<rparr>) = (Inr rs, w') \<longrightarrow>
      LuaState_execute e w [PyString s] =
        (case LuaConvert e (w'\<lparr>stack := stack w @ [hd (rs @ [LNil])],
                                errorJmp := errorJmp w\<rparr>) (- 1) of
           Abort f \<Rightarrow> Abort f
         | Ok (ret, w4) \<Rightarrow> Ok (ret, w4\<lparr>stack := []\<rparr>)))
   \<and> (\<forall>fid err w' msg. load_chunk e s = Inr fid \<and> fn_call e fid [] (w\<lparr>errorJmp := True\<rparr>) = (Inl err, w')
        \<and> lua_tolstring e (w'\<lparr>stack := stack w @ [err]\<rparr>) (- 1) = Some msg \<longrightarrow>
      LuaState_execute e w [PyString s] =
        Ok (None, w'\<lparr>PyErr := Some (PyExc_RuntimeError, ''error executing code: '' @ msg),
                      stack := [], errorJmp := errorJmp w\<rparr>))
   \<and> (\<forall>w1. py_alloc w = Some w1 \<longrightarrow>
      LuaState_eval e w [PyString s] = LuaState_execute e w1 [PyString (''return '' @ s)])"
proof -
  have load_err: "LuaState_execute e w [PyString s] =
        Ok (None, w\<lparr>PyErr := Some (PyExc_RuntimeError, ''error loading code: '' @ msg),
                     stack := []\<rparr>)"
    if "load_chunk e s = Inl msg" for msg
    using that
    by (simp add: LuaState_execute_def LuaState_run_def PyArg_ParseTuple_s_def
        luaL_loadbuffer_def LUA_ERRSYNTAX_def push_def lua_tolstring_top_string
        lua_settop_0 PyErr_SetString_def lua_tolstring_converts_def)
  have ran: "LuaState_execute e w [PyString s] =
        (case LuaConvert e (w'\<lparr>stack := stack w @ [hd (rs @ [LNil])],
                                errorJmp := errorJmp w\<rparr>) (- 1) of
           Abort f \<Rightarrow> Abort f
         | Ok (ret, w4) \<Rightarrow> Ok (ret, w4\<lparr>stack := []\<rparr>))"
    if "load_chunk e s = Inr fid \<and> fn_call e fid [] (w\<lparr>errorJmp := True\<rparr>) = (Inr rs, w')" for fid rs w'
  proof -
    have "call_value e (LFunction fid) [] (w\<lparr>errorJmp := True\<rparr>) = (Inr rs, w')"
      using that by (simp add: call_value_def)
    from lua_pcall_one_result [OF this] show ?thesis
      using that
      by (simp add: LuaState_execute_def LuaState_run_def PyArg_ParseTuple_s_def
          luaL_loadbuffer_def push_def lua_settop_0
          split: outcome.splits prod.splits)
  qed
  have raised: "LuaState_execute e w [PyString s] =
        Ok (None, w'\<lparr>PyErr := Some (PyExc_RuntimeError, ''error executing code: '' @ msg),
                      stack := [], errorJmp := errorJmp w\<rparr>)"
    if "load_chunk e s = Inr fid \<and> fn_call e fid [] (w\<lparr>errorJmp := True\<rparr>) = (Inl err, w')
        \<and> lua_tolstring e (w'\<lparr>stack := stack w @ [err]\<rparr>) (- 1) = Some msg" for fid err w' msg
  proof -
    have "call_value e (LFunction fid) [] (w\<lparr>errorJmp := True\<rparr>) = (Inl err, w')"
      using that by (simp add: call_value_def)
    from lua_pcall_one_error [OF this] show ?thesis
      using that
      by (simp add: LuaState_execute_def LuaState_run_def PyArg_ParseTuple_s_def
          luaL_loadbuffer_def push_def lua_settop_0 LUA_ERRRUN_def PyErr_SetString_def
          lua_tolstring_converts_def lua_tolstring_errorJmp)
  qed
  have ev: "LuaState_eval e w [PyString s] = LuaState_execute e w1 [PyString (''return '' @ s)]"
    if "py_alloc w = Some w1" for w1
    using that
    by (simp add: LuaState_eval_def LuaState_execute_def LuaState_run_def PyArg_ParseTuple_s_def)
  show ?thesis using load_err ran raised ev by blast
qed

theorem LuaState_run_compiles_text_witness:
  "LuaState_eval test_env test_world [PyString ''2, 3''] =
     Ok (Some (PyInt 2), test_world\<lparr>stack := []\<rparr>)
   \<and> LuaState_execute test_env test_world [PyString ''x = 1''] =
     Ok (Some Py_None, test_world\<lparr>stack := []\<rparr>)
   \<and> LuaState_execute test_env test_world [PyString ''x = ''] =
     Ok (None, test_world\<lparr>PyErr := Some (PyExc_RuntimeError, ''error loading code: syntax error''),
                          stack := []\<rparr>)"
proof -
  have a: "py_alloc test_world = Some test_world"
    by (simp add: py_alloc_def test_world_def)
  have l1: "load_chunk test_env ''return 2, 3'' = Inr 2
            \<and> fn_call test_env 2 [] (test_world\<lparr>errorJmp := True\<rparr>) =
                (Inr [LNumber 2, LNumber 3], test_world\<lparr>errorJmp := True\<rparr>)"
    by (simp add: test_env_def test_load_def test_fn_def)
  have c1: "LuaConvert test_env
              (test_world\<lparr>errorJmp := True,
                 stack := stack test_world @ [hd ([LNumber 2, LNumber 3] @ [LNil])],
                 errorJmp := errorJmp test_world\<rparr>) (- 1) =
            Ok (Some (PyInt 2), test_world\<lparr>stack := [LNumber 2]\<rparr>)"
    by (simp add: LuaConvert_def lua_type_def index2adr_def lua_tonumber_def long_of_double_def
        truncate_def LONG_MIN_def LONG_MAX_def PyInt_FromLong_def py_new_def py_alloc_def
        test_world_def Let_def)
  have l2: "load_chunk test_env ''x = 1'' = Inr 4
            \<and> fn_call test_env 4 [] (test_world\<lparr>errorJmp := True\<rparr>) =
                (Inr [], test_world\<lparr>errorJmp := True\<rparr>)"
    by (simp add: test_env_def test_load_def test_fn_def)
  have c2: "LuaConvert test_env
              (test_world\<lparr>errorJmp := True, stack := stack test_world @ [hd ([] @ [LNil])],
                 errorJmp := errorJmp test_world\<rparr>) (- 1) =
            Ok (Some Py_None, test_world\<lparr>stack := [LNil]\<rparr>)"
    by (simp add: LuaConvert_def lua_type_def index2adr_def test_world_def)
  have l3: "load_chunk test_env ''x = '' = Inl ''syntax error''"
    by (simp add: test_env_def test_load_def)
  have ev: "LuaState_eval test_env test_world [PyString ''2, 3''] =
              LuaState_execute test_env test_world [PyString ''return 2, 3'']"
    using LuaState_run_compiles_text [of test_env "''2, 3''" test_world] a by simp
  have first: "LuaState_execute test_env test_world [PyString ''return 2, 3''] =
     Ok (Some (PyInt 2), test_world\<lparr>stack := []\<rparr>)"
    using LuaState_run_compiles_text [of test_env "''return 2, 3''" test_world,
            THEN conjunct2, THEN conjunct1, rule_format, OF l1] c1
    by simp
  have second: "LuaState_execute test_env test_world [PyString ''x = 1''] =
     Ok (Some Py_None, test_world\<lparr>stack := []\<rparr>)"
    using LuaState_run_compiles_text [of test_env "''x = 1''" test_world,
            THEN conjunct2, THEN conjunct1, rule_format, OF l2] c2
    by simp
  have third: "LuaState_execute test_env test_world [PyString ''x = ''] =
     Ok (None, test_world\<lparr>PyErr := Some (PyExc_RuntimeError, ''error loading code: syntax error''),
                          stack := []\<rparr>)"
    using LuaState_run_compiles_text [of test_env "''x = ''" test_world,
            THEN conjunct1, rule_format, OF l3]
    by simp
  show ?thesis using ev first second third by simp
qed

subsection \<open>Iteration\<close>

lemma fold_max_ge_init: "(m::int) \<le> fold max xs m"
  by (induction xs arbitrary: m) (auto intro: order_trans [OF max.cobounded2])

lemma fold_max_ge_member: "x \<in> set xs \<Longrightarrow> (x::int) \<le> fold max xs m"
proof (induction xs arbitrary: m)
  case Nil
  then show ?case by simp
next
  case (Cons y ys)
  show ?case
  proof (cases "x = y")
    case True
    have "y \<le> max y m" by simp
    also have "\<dots> \<le> fold max ys (max y m)" by (rule fold_max_ge_init)
    finally show ?thesis using True by simp
  next
    case False
    with Cons.prems have "x \<in> set ys" by simp
    from Cons.IH [OF this] show ?thesis by simp
  qed
qed

lemma fresh_ref_positive: "0 < fresh_ref w"
  using fold_max_ge_init [of 0 "map fst (registry w)"] by (simp add: fresh_ref_def)

lemma fresh_ref_unused: "map_of (registry w) (fresh_ref w) = None"
proof (rule ccontr)
  assume "map_of (registry w) (fresh_ref w) \<noteq> None"
  then have "fresh_ref w \<in> fst ` set (registry w)"
    by (auto simp add: map_of_eq_None_iff)
  then have "fresh_ref w \<in> set (map fst (registry w))" by simp
  from fold_max_ge_member [OF this, of 0] show False by (simp add: fresh_ref_def)
qed

lemma index2adr_top [simp]: "index2adr (st @ [x]) (- 1) = Some x"
  by (simp add: index2adr_def)

lemma index2adr_top2 [simp]:
  "index2adr (st @ [x, y]) (- 1) = Some y" "index2adr (st @ [x, y]) (- 2) = Some x"
  by (auto simp add: index2adr_def nth_append)

lemma index2adr_top3 [simp]:
  "index2adr (st @ [x, y, z]) (- 1) = Some z" "index2adr (st @ [x, y, z]) (- 2) = Some y"
  "index2adr (st @ [x, y, z]) (- 3) = Some x"
  by (auto simp add: index2adr_def nth_append)

lemma lua_pop_1: "lua_pop w 1 = w\<lparr>stack := butlast (stack w)\<rparr>"
proof -
  have "nat (int (length (stack w)) - 1) = length (stack w) - 1" by arith
  then show ?thesis by (simp add: lua_pop_def lua_settop_def butlast_conv_take)
qed


lemma iternext_lua_next:
  assumes "luaH_next (tables w a) kc = Next_pair k v"
  shows "TRY e (\<lambda>u. lua_next u (- 2)) (w\<lparr>stack := stack w @ [LTable a, kc]\<rparr>) =
           Ok (Some 1, w\<lparr>stack := stack w @ [LTable a, k, v]\<rparr>)"
  using assms
  by (simp add: TRY_def lua_atpanic_def lua_next_def push_def lua_pop_1 butlast_append)

text \<open>
  Claim C3, as amended. Let the proxy wrap a table, and let the Lua \<^verbatim>\<open>next\<close> primitive, at
  the proxy's cursor (nil on the first call), produce the pair of key \<open>k\<close> and value \<open>v\<close>.
  \<^verbatim>\<open>LuaObject_iternext\<close> removes the value and returns \<^verbatim>\<open>LuaConvert\<close> of the key \<open>k\<close>;
  it stores \<open>k\<close> as the new cursor, under a registry handle that was not in use when the
  proxy had none, and under the proxy's handle otherwise.
\<close>


theorem LuaObject_iternext_returns_key:
  assumes tbl: "registry_get w (ref self) = LTable a"
    and nxt: "luaH_next (tables w a)
            (if refiter self = LUA_NOREF then LNil else registry_get w (refiter self)) =
          Next_pair k v"
    and key: "k \<noteq> LNil"
    and conv: "LuaConvert e (w\<lparr>stack := stack w @ [LTable a, k]\<rparr>) (- 1) = Ok (ret, w5)"
  shows "\<exists>self' w'. LuaObject_iternext e w self = Ok (ret, self', w')
           \<and> ref self' = ref self
           \<and> refiter self' \<noteq> LUA_NOREF
           \<and> registry_get w' (refiter self') = k
           \<and> (if refiter self = LUA_NOREF then map_of (registry w5) (refiter self') = None
               else refiter self' = refiter self)"
proof -
  let ?kc = "if refiter self = LUA_NOREF then LNil else registry_get w (refiter self)"
  let ?w2 = "w\<lparr>stack := stack w @ [LTable a, ?kc]\<rparr>"
  have w2: "(let w1 = lua_rawgeti w (ref self)
             in if refiter self = LUA_NOREF then lua_pushnil w1
                else lua_rawgeti w1 (refiter self)) = ?w2"
    using tbl by (simp add: lua_rawgeti_def lua_pushnil_def push_def registry_get_def)
  have trial: "TRY e (\<lambda>u. lua_next u (- 2)) ?w2 =
               Ok (Some 1, w\<lparr>stack := stack w @ [LTable a, k, v]\<rparr>)"
    by (rule iternext_lua_next [OF nxt])
  have pop: "lua_pop (w\<lparr>stack := stack w @ [LTable a, k, v]\<rparr>) 1 =
               w\<lparr>stack := stack w @ [LTable a, k]\<rparr>"
    by (simp add: lua_pop_1 butlast_append)
  have st5: "stack w5 = stack w @ [LTable a, k]"
    using LuaConvert_frame [OF conv] by simp
  have top5: "index2adr (stack w5) (- 1) = Some k"
    using st5 by simp
  show ?thesis
  proof (cases "refiter self = LUA_NOREF")
    case True
    have r: "luaL_ref w5 = Ok (fresh_ref w5, (lua_pop w5 1)\<lparr>registry := (fresh_ref w5, k) # registry w5\<rparr>)"
      using top5 key by (cases k) (simp_all add: luaL_ref_def)
    have run: "LuaObject_iternext e w self =
            Ok (ret, self\<lparr>refiter := fresh_ref w5\<rparr>,
                (lua_pop w5 1)\<lparr>registry := (fresh_ref w5, k) # registry w5\<rparr>)"
      unfolding LuaObject_iternext_def w2 [unfolded Let_def] Let_def
      using True trial pop conv r by simp
    have "fresh_ref w5 \<noteq> LUA_NOREF"
      using fresh_ref_positive [of w5] by (simp add: LUA_NOREF_def)
    then show ?thesis
      using run True fresh_ref_unused [of w5]
      by (simp add: registry_get_def lua_pop_1 butlast_append)
  next
    case False
    have r: "lua_rawseti w5 (refiter self) =
               Ok ((lua_pop w5 1)\<lparr>registry := (refiter self, k) #
                      filter (\<lambda>kv. fst kv \<noteq> refiter self) (registry w5)\<rparr>)"
      using top5 by (simp add: lua_rawseti_def)
    have run: "LuaObject_iternext e w self =
            Ok (ret, self,
                (lua_pop w5 1)\<lparr>registry := (refiter self, k) #
                      filter (\<lambda>kv. fst kv \<noteq> refiter self) (registry w5)\<rparr>)"
      unfolding LuaObject_iternext_def w2 [unfolded Let_def] Let_def
      using False trial pop conv r by simp
    show ?thesis
      using run False
      by (simp add: registry_get_def lua_pop_1 butlast_append)
  qed
qed

theorem LuaObject_iternext_returns_key_witness:
  "(\<exists>self' w'. LuaObject_iternext test_env test_world \<lparr>ref = 1, refiter = LUA_NOREF\<rparr> =
        Ok (Some (PyString ''a''), self', w')
      \<and> ref self' = 1 \<and> refiter self' \<noteq> LUA_NOREF
      \<and> registry_get w' (refiter self') = LString ''a'')
   \<and> (\<exists>self' w'. LuaObject_iternext test_env
          (test_world\<lparr>registry := (3, LString ''a'') # registry test_world\<rparr>)
          \<lparr>ref = 1, refiter = 3\<rparr> =
        Ok (Some (PyString ''b''), self', w')
      \<and> ref self' = 1 \<and> refiter self' = 3
      \<and> registry_get w' (refiter self') = LString ''b'')"
proof -
  let ?self = "\<lparr>ref = 1, refiter = LUA_NOREF\<rparr>"
  let ?w = "test_world\<lparr>registry := (3, LString ''a'') # registry test_world\<rparr>"
  let ?self1 = "\<lparr>ref = 1, refiter = 3\<rparr>"
  have t0: "registry_get test_world (ref ?self) = LTable 0"
    by (simp add: registry_get_def test_world_def)
  have n0: "luaH_next (tables test_world 0)
              (if refiter ?self = LUA_NOREF then LNil else registry_get test_world (refiter ?self)) =
            Next_pair (LString ''a'') (LNumber 1)"
    by (simp add: luaH_next_def test_world_def)
  have k0: "LString ''a'' \<noteq> LNil" by simp
  have c0: "LuaConvert test_env (test_world\<lparr>stack := stack test_world @ [LTable 0, LString ''a'']\<rparr>) (- 1) =
              Ok (Some (PyString ''a''), test_world\<lparr>stack := [LTable 0, LString ''a'']\<rparr>)"
    by (simp add: LuaConvert_def lua_type_def lua_tolstring_def index2adr_def
        PyString_FromStringAndSize_def py_new_def py_alloc_def test_world_def)
  have t1: "registry_get ?w (ref ?self1) = LTable 0"
    by (simp add: registry_get_def test_world_def)
  have n1: "luaH_next (tables ?w 0)
              (if refiter ?self1 = LUA_NOREF then LNil else registry_get ?w (refiter ?self1)) =
            Next_pair (LString ''b'') (LNumber 2)"
    by (simp add: luaH_next_def registry_get_def LUA_NOREF_def test_world_def)
  have k1: "LString ''b'' \<noteq> LNil" by simp
  have c1: "LuaConvert test_env (?w\<lparr>stack := stack ?w @ [LTable 0, LString ''b'']\<rparr>) (- 1) =
              Ok (Some (PyString ''b''), ?w\<lparr>stack := [LTable 0, LString ''b'']\<rparr>)"
    by (simp add: LuaConvert_def lua_type_def lua_tolstring_def index2adr_def
        PyString_FromStringAndSize_def py_new_def py_alloc_def test_world_def)
  show ?thesis
    using LuaObject_iternext_returns_key [OF t0 n0 k0 c0]
      LuaObject_iternext_returns_key [OF t1 n1 k1 c1]
    unfolding LUA_NOREF_def by simp blast
qed

text \<open>
  The claim as stated has the value component returned. On the table \<open>{a = 1, b = 2}\<close> the
  first pair is the key \<open>a\<close> with the value 1, the value converts to the Python int 1, and
  \<^verbatim>\<open>LuaObject_iternext\<close> returns the Python string \<open>a\<close>.
\<close>


theorem LuaObject_iternext_value_counterexample:
  "luaH_next (tables test_world 0) LNil = Next_pair (LString ''a'') (LNumber 1)
   \<and> LuaConvert test_env (test_world\<lparr>stack := [LTable 0, LString ''a'', LNumber 1]\<rparr>) (- 1) =
       Ok (Some (PyInt 1), test_world\<lparr>stack := [LTable 0, LString ''a'', LNumber 1]\<rparr>)
   \<and> LuaObject_iternext test_env test_world \<lparr>ref = 1, refiter = LUA_NOREF\<rparr> =
       Ok (Some (PyString ''a''), \<lparr>ref = 1, refiter = 3\<rparr>,
           test_world\<lparr>stack := [LTable 0], registry := (3, LString ''a'') # registry test_world\<rparr>)
   \<and> \<not> (\<exists>self' w'. LuaObject_iternext test_env test_world \<lparr>ref = 1, refiter = LUA_NOREF\<rparr> =
           Ok (Some (PyInt 1), self', w'))"
proof -
  have run: "LuaObject_iternext test_env test_world \<lparr>ref = 1, refiter = LUA_NOREF\<rparr> =
       Ok (Some (PyString ''a''), \<lparr>ref = 1, refiter = 3\<rparr>,
           test_world\<lparr>stack := [LTable 0], registry := (3, LString ''a'') # registry test_world\<rparr>)"
    by (simp add: lua_api_defs py_api_defs bridge_defs test_defs Let_def)
  have nxt: "luaH_next (tables test_world 0) LNil = Next_pair (LString ''a'') (LNumber 1)"
    by (simp add: luaH_next_def test_world_def)
  have conv: "LuaConvert test_env (test_world\<lparr>stack := [LTable 0, LString ''a'', LNumber 1]\<rparr>) (- 1) =
       Ok (Some (PyInt 1), test_world\<lparr>stack := [LTable 0, LString ''a'', LNumber 1]\<rparr>)"
    by (simp add: lua_api_defs py_api_defs bridge_defs test_defs Let_def)
  show ?thesis using run nxt conv by simp
qed

subsection \<open>Setting a key of the wrapped value\<close>



lemma lua_tolstring_single_string:
  "stack w = [LString m] \<Longrightarrow> lua_tolstring e w (- 1) = Some m"
  "stack w = [LString m] \<Longrightarrow> lua_tolstring_converts e w (- 1) = w"
  by (simp_all add: lua_tolstring_def lua_tolstring_converts_def index2adr_def)




subsection \<open>The round trip of primitive values\<close>

text \<open>
  A Lua number with a fractional part, at stack index \<open>n\<close>, is converted to the Python float
  of \<open>n\<close>, not of the number; a number without one is converted to the Python int.
\<close>


lemma LuaConvert_fractional_number:
  assumes "index2adr (stack w) n = Some (LNumber x)"
    and "long_of_double x = Some l" and "x \<noteq> of_int l"
  shows "LuaConvert e w n = Ok (PyFloat_FromDouble w (of_int n))"
  using assms by (simp add: LuaConvert_def lua_type_def lua_tonumber_def Let_def)

lemma LuaConvert_integral_number:
  assumes "index2adr (stack w) n = Some (LNumber (of_int i))"
    and "LONG_MIN \<le> i" and "i \<le> LONG_MAX"
  shows "LuaConvert e w n = Ok (PyInt_FromLong w i)"
  using assms
  by (simp add: LuaConvert_def lua_type_def lua_tonumber_def Let_def long_of_double_def
      truncate_def)

text \<open>
  With the \<open>to_guest\<close> of the specification, booleans, strings, ints and floats without a
  fractional part come back from \<^verbatim>\<open>LuaConvert\<close> as the claim C1 says (a float without a
  fractional part as the int), as long as Python can allocate the result.
\<close>


lemma roundtrip_other_primitives:
  assumes "allocs w = []"
  shows "spec_py_convert w Py_True False = Gives 1 (push (LBoolean True) w)
       \<and> LuaConvert e (push (LBoolean True) w) (- 1) = Ok (Some Py_True, push (LBoolean True) w)"
    and "spec_py_convert w Py_False False = Gives 1 (push (LBoolean False) w)
       \<and> LuaConvert e (push (LBoolean False) w) (- 1) = Ok (Some Py_False, push (LBoolean False) w)"
    and "spec_py_convert w (PyString s) False = Gives 1 (push (LString s) w)
       \<and> LuaConvert e (push (LString s) w) (- 1) = Ok (Some (PyString s), push (LString s) w)"
    and "LONG_MIN \<le> i \<Longrightarrow> i \<le> LONG_MAX \<Longrightarrow>
         spec_py_convert w (PyInt i) False = Gives 1 (push (LNumber (of_int i)) w)
       \<and> LuaConvert e (push (LNumber (of_int i)) w) (- 1) =
           Ok (Some (PyInt i), push (LNumber (of_int i)) w)"
    and "LONG_MIN \<le> i \<Longrightarrow> i \<le> LONG_MAX \<Longrightarrow>
         spec_py_convert w (PyFloat (of_int i)) False = Gives 1 (push (LNumber (of_int i)) w)
       \<and> LuaConvert e (push (LNumber (of_int i)) w) (- 1) =
           Ok (Some (PyInt i), push (LNumber (of_int i)) w)"
  using assms
  by (simp_all add: spec_py_convert_def lua_pushboolean_def lua_pushlstring_def
      lua_pushnumber_def push_def LuaConvert_def lua_type_def lua_toboolean_def
      lua_tolstring_def lua_tonumber_def long_of_double_def truncate_def Let_def
      PyString_FromStringAndSize_def PyInt_FromLong_def py_new_def py_alloc_def)

text \<open>
  Claim C1. The claim has the float 2.5 come back as the float 2.5. The Python float 2.5 is
  pushed as the Lua number 2.5, and \<^verbatim>\<open>LuaConvert\<close> returns the float -1 for it at index -1
  and the float 1 at index 1; passed to a Lua function that returns its argument, it comes
  back from \<^verbatim>\<open>LuaObject_call\<close> as the float 1.
\<close>


theorem LuaConvert_float_roundtrip_lost:
  "spec_py_convert test_world (PyFloat (5 / 2)) False =
     Gives 1 (test_world\<lparr>stack := [LNumber (5 / 2)]\<rparr>)
   \<and> LuaConvert test_env (test_world\<lparr>stack := [LNumber (5 / 2)]\<rparr>) (- 1) =
     Ok (Some (PyFloat (- 1)), test_world\<lparr>stack := [LNumber (5 / 2)]\<rparr>)
   \<and> LuaConvert test_env (test_world\<lparr>stack := [LNumber (5 / 2)]\<rparr>) 1 =
     Ok (Some (PyFloat 1), test_world\<lparr>stack := [LNumber (5 / 2)]\<rparr>)
   \<and> LuaObject_call test_env (test_world\<lparr>registry := [(1, LFunction 0)]\<rparr>)
        \<lparr>ref = 1, refiter = LUA_NOREF\<rparr> [PyFloat (5 / 2)] =
     Ok (Some (PyFloat 1), test_world\<lparr>registry := [(1, LFunction 0)]\<rparr>)"
  by (simp add: lua_api_defs py_api_defs bridge_defs test_defs Let_def)

subsection \<open>The Lua stack after an operation\<close>

text \<open>
  \<^verbatim>\<open>LuaObject_getattr\<close>, \<^verbatim>\<open>LuaObject_setattr\<close>, \<^verbatim>\<open>LuaObject_length\<close> and
  \<^verbatim>\<open>LuaState_run\<close> return with the Lua stack empty on every path, and so does \<^verbatim>\<open>LuaCall\<close>
  when it returns a result and when the conversion of an argument fails.
\<close>

lemma LuaObject_getattr_resets_stack:
  assumes "LuaObject_getattr e w obj attr = Ok (r, w')"
  shows "stack w' = []"
  using assms
  by (auto simp add: LuaObject_getattr_def Let_def lua_settop_0
      split: if_splits outcome.splits prod.splits option.splits)

lemma LuaObject_setattr_resets_stack:
  assumes "LuaObject_setattr e w obj attr val = Ok (r, w')"
  shows "stack w' = []"
  using assms
  by (auto simp add: LuaObject_setattr_def Let_def lua_settop_0
      split: if_splits outcome.splits prod.splits option.splits)

lemma LuaObject_length_resets_stack: "stack (snd (LuaObject_length e w obj)) = []"
  by (simp add: LuaObject_length_def Let_def lua_settop_0)

lemma LuaState_run_resets_stack:
  assumes "LuaState_run e w args ev = Ok (r, w')"
  shows "stack w' = []"
  using assms
  by (auto simp add: LuaState_run_def Let_def lua_settop_0
      split: if_splits outcome.splits prod.splits option.splits)

lemma LuaCall_args_False_resets_stack:
  "LuaCall_args e w args is = Ok (False, w') \<Longrightarrow> stack w' = []"
  by (induction "is" arbitrary: w)
     (auto simp add: lua_settop_0 split: option.splits outcome.splits prod.splits if_splits)

lemma LuaCall_success_resets_stack:
  assumes "LuaCall e w args = Ok (Some r, w')"
  shows "stack w' = []"
  using assms
  by (auto simp add: LuaCall_def Let_def lua_settop_0
      split: if_splits outcome.splits prod.splits option.splits bool.splits)

text \<open>
  When the protected call fails, \<^verbatim>\<open>LuaCall\<close> returns with the error value still on the
  Lua stack.
\<close>


lemma LuaCall_failed_call_general:
  assumes "length ws = Suc (length args)"
    and "ws ! 0 = w"
    and "\<forall>j<length args. \<exists>rc. rc \<noteq> 0 \<and>
           e_py_convert e (ws ! j) (args ! j) False = Ok (rc, ws ! Suc j)"
    and "stack (ws ! length args) = f # vals"
    and "length vals = length args"
    and "call_value e f vals ((ws ! length args)\<lparr>stack := [], errorJmp := True\<rparr>) =
           (Inl (LString msg), w2)"
  shows "LuaCall e w args =
           Ok (None, w2\<lparr>stack := [LString msg], errorJmp := errorJmp (ws ! length args),
                       PyErr := Some (PyExc_Exception, ''error: '' @ msg)\<rparr>)"
proof -
  have args: "args = [] @ args" by simp
  have "LuaCall_args e (ws ! 0) args [length ([]::py_obj list) ..< length args] =
          Ok (True, ws ! length args)"
    by (rule LuaCall_args_succeeds [OF assms(1) assms(3) args])
  then have loop: "LuaCall_args e w args [0 ..< length args] = Ok (True, ws ! length args)"
    using assms(2) by simp
  have call: "lua_pcall e (ws ! length args) (length args) LUA_MULTRET =
                Ok (LUA_ERRRUN, w2\<lparr>stack := [LString msg], errorJmp := errorJmp (ws ! length args)\<rparr>)"
    by (rule lua_pcall_raises [OF assms(4) assms(5) assms(6)])
  show ?thesis
    by (simp add: LuaCall_def PyTuple_Size_def loop call LUA_ERRRUN_def
        lua_tolstring_single_string PyErr_SetString_def)
qed

text \<open>
  Claim C2. The claim has the Lua stack empty after every operation. Calling a proxy of a
  function that raises \<open>boom\<close> returns NULL with the string \<open>boom\<close> left on the stack;
  \<^verbatim>\<open>LuaObject_iternext\<close> leaves the wrapped table on the stack, both when it returns a key
  and when the table is exhausted.
\<close>


theorem LuaCall_failed_call_keeps_stack:
  "LuaObject_call test_env test_world \<lparr>ref = 2, refiter = LUA_NOREF\<rparr> [] =
     Ok (None, test_world\<lparr>stack := [LString ''boom''],
                          PyErr := Some (PyExc_Exception, ''error: boom'')\<rparr>)
   \<and> LuaObject_iternext test_env test_world \<lparr>ref = 1, refiter = LUA_NOREF\<rparr> =
     Ok (Some (PyString ''a''), \<lparr>ref = 1, refiter = 3\<rparr>,
         test_world\<lparr>stack := [LTable 0], registry := (3, LString ''a'') # registry test_world\<rparr>)
   \<and> LuaObject_iternext test_env (test_world\<lparr>tables := (\<lambda>a. [])\<rparr>) \<lparr>ref = 1, refiter = LUA_NOREF\<rparr> =
     Ok (None, \<lparr>ref = 1, refiter = LUA_NOREF\<rparr>,
         test_world\<lparr>tables := (\<lambda>a. []), stack := [LTable 0]\<rparr>)"
  by (simp add: lua_api_defs py_api_defs bridge_defs test_defs Let_def)

subsection \<open>Operations on a proxy whose reference is lost\<close>

text \<open>
  Claim C4. The claim has every operation report \<open>lost reference\<close> when the registry slot
  of the proxy reads nil. \<^verbatim>\<open>LuaObject_getattr\<close> does; \<^verbatim>\<open>LuaObject_length\<close> returns 0
  and sets no error, \<^verbatim>\<open>LuaObject_call\<close> reports the error of calling nil raised by Lua, and
  \<^verbatim>\<open>LuaObject_iternext\<close> passes the nil to \<^verbatim>\<open>lua_next\<close>, which requires a table.
\<close>


theorem LuaObject_operations_on_lost_reference:
  "registry_get test_world 9 = LNil
   \<and> LuaObject_length test_env test_world \<lparr>ref = 9, refiter = LUA_NOREF\<rparr> = (0, test_world)
   \<and> LuaObject_call test_env test_world \<lparr>ref = 9, refiter = LUA_NOREF\<rparr> [] =
       Ok (None, test_world\<lparr>stack := [LString ''attempt to call a nil value''],
                            PyErr := Some (PyExc_Exception, ''error: attempt to call a nil value'')\<rparr>)
   \<and> LuaObject_iternext test_env test_world \<lparr>ref = 9, refiter = LUA_NOREF\<rparr> = Abort Not_a_table
   \<and> LuaObject_getattr test_env test_world \<lparr>ref = 9, refiter = LUA_NOREF\<rparr> (PyString ''a'') =
       Ok (None, test_world\<lparr>PyErr := Some (PyExc_RuntimeError, ''lost reference'')\<rparr>)"
  by (simp add: lua_api_defs py_api_defs bridge_defs test_defs Let_def)

subsection \<open>A single result that cannot be converted\<close>

text \<open>
  When the only result of the call cannot be converted, \<^verbatim>\<open>LuaCall\<close> reaches
  \<^verbatim>\<open>Py_DECREF(ret)\<close> with \<^verbatim>\<open>ret\<close> NULL.
\<close>


lemma LuaCall_single_result_null_general:
  assumes "length ws = Suc (length args)"
    and "ws ! 0 = w"
    and "\<forall>j<length args. \<exists>rc. rc \<noteq> 0 \<and>
           e_py_convert e (ws ! j) (args ! j) False = Ok (rc, ws ! Suc j)"
    and "stack (ws ! length args) = f # vals"
    and "length vals = length args"
    and "call_value e f vals ((ws ! length args)\<lparr>stack := [], errorJmp := True\<rparr>) = (Inr [r], w2)"
    and "LuaConvert e (w2\<lparr>stack := [r], errorJmp := errorJmp (ws ! length args)\<rparr>) 1 = Ok (None, w3)"
  shows "LuaCall e w args = Abort Null_pointer"
proof -
  have args: "args = [] @ args" by simp
  have "LuaCall_args e (ws ! 0) args [length ([]::py_obj list) ..< length args] =
          Ok (True, ws ! length args)"
    by (rule LuaCall_args_succeeds [OF assms(1) assms(3) args])
  then have loop: "LuaCall_args e w args [0 ..< length args] = Ok (True, ws ! length args)"
    using assms(2) by simp
  have call: "lua_pcall e (ws ! length args) (length args) LUA_MULTRET =
                Ok (0, w2\<lparr>stack := [r], errorJmp := errorJmp (ws ! length args)\<rparr>)"
    by (rule lua_pcall_returns [OF assms(4) assms(5) assms(6)])
  show ?thesis
    using assms(7) by (simp add: LuaCall_def PyTuple_Size_def loop call lua_gettop_def)
qed

text \<open>
  Claim C10. The claim has the bridge return failure without decrementing the reference count
  of the NULL result. A function returns one table, Python cannot allocate the proxy for it,
  \<^verbatim>\<open>LuaConvert\<close> returns NULL, and \<^verbatim>\<open>LuaCall\<close> dereferences the null pointer.
\<close>


theorem LuaCall_single_result_null_decref:
  "LuaConvert test_env (test_world\<lparr>stack := [LTable 0], allocs := [False]\<rparr>) 1 =
     Ok (None, test_world\<lparr>stack := [LTable 0]\<rparr>)
   \<and> LuaCall test_env (test_world\<lparr>stack := [LFunction 3], allocs := [False]\<rparr>) [] =
     Abort Null_pointer"
  by (simp add: lua_api_defs py_api_defs bridge_defs test_defs Let_def)

end
